theory Spec2Isabelle
  imports Main "HOL-Library.Word"
begin

section \<open>JavaScript primitives used by the handlers\<close>

text \<open>
  Strings are modelled as \<open>string\<close> (code units below 256). A JavaScript number that
  results from \<open>parseInt\<close> is either \<open>NaN\<close> or an integer; the rounding of integers
  beyond \<open>2^53\<close> to doubles is not modelled (the handlers only compare such numbers
  with 0, 1 and 100 and test them for truthiness, which rounding does not change).
\<close>

type_synonym bytes = "8 word list"

datatype jsnum = NaN | Num int

record js_error =
  name :: string
  message :: string

definition Error :: "string \<Rightarrow> js_error" where
  "Error m = \<lparr>name = ''Error'', message = m\<rparr>"

definition TypeError :: "string \<Rightarrow> js_error" where
  "TypeError m = \<lparr>name = ''TypeError'', message = m\<rparr>"

text \<open>\<open>s.split(sep)\<close> for a one-character separator: never the empty array.\<close>

fun split_js :: "char \<Rightarrow> string \<Rightarrow> string list" where
  "split_js sep [] = [[]]"
| "split_js sep (c # cs) =
     (if c = sep then [] # split_js sep cs
      else (case split_js sep cs of
              p # ps \<Rightarrow> (c # p) # ps
            | [] \<Rightarrow> [[c]]))"

text \<open>\<open>parts.join(sep)\<close>.\<close>

fun join_js :: "string \<Rightarrow> string list \<Rightarrow> string" where
  "join_js sep [] = []"
| "join_js sep [p] = p"
| "join_js sep (p # q # ps) = p @ sep @ join_js sep (q # ps)"

text \<open>Truthiness of a possibly undefined string and of a possibly undefined number.\<close>

definition truthy_str :: "string option \<Rightarrow> bool" where
  "truthy_str v = (case v of None \<Rightarrow> False | Some s \<Rightarrow> s \<noteq> [])"

definition truthy_num :: "jsnum option \<Rightarrow> bool" where
  "truthy_num v = (case v of Some (Num n) \<Rightarrow> n \<noteq> 0 | _ \<Rightarrow> False)"

text \<open>
  \<open>parseInt(s, radix)\<close> (ECMA-262, 19.2.5): leading white space is skipped, then an
  optional sign, then (radix undefined, 0 or 16) an optional \<open>0x\<close> prefix, then the
  longest prefix of digits of the radix; no digit at all is \<open>NaN\<close>.
\<close>

definition isWhiteSpace :: "char \<Rightarrow> bool" where
  "isWhiteSpace c \<longleftrightarrow>
     c \<in> set [CHR 0x09, CHR 0x0A, CHR 0x0B, CHR 0x0C, CHR 0x0D, CHR 0x20, CHR 0xA0]"

definition digitValue :: "char \<Rightarrow> nat option" where
  "digitValue c =
     (let n = (of_char c :: nat) in
      if 48 \<le> n \<and> n \<le> 57 then Some (n - 48)
      else if 97 \<le> n \<and> n \<le> 122 then Some (n - 87)
      else if 65 \<le> n \<and> n \<le> 90 then Some (n - 55)
      else None)"

definition isRadixDigit :: "nat \<Rightarrow> char \<Rightarrow> bool" where
  "isRadixDigit R c = (case digitValue c of Some d \<Rightarrow> d < R | None \<Rightarrow> False)"

definition digitsValue :: "nat \<Rightarrow> string \<Rightarrow> int" where
  "digitsValue R ds =
     foldl (\<lambda>a c. a * int R + (case digitValue c of Some d \<Rightarrow> int d | None \<Rightarrow> 0)) 0 ds"

definition hasHexPrefix :: "string \<Rightarrow> bool" where
  "hasHexPrefix s \<longleftrightarrow> take 2 s = ''0x'' \<or> take 2 s = ''0X''"

definition parseInt :: "string \<Rightarrow> nat option \<Rightarrow> jsnum" where
  "parseInt s radix =
     (let S0 = dropWhile isWhiteSpace s;
          neg = (take 1 S0 = ''-'');
          S1 = (if take 1 S0 = ''+'' \<or> take 1 S0 = ''-'' then drop 1 S0 else S0);
          r = (case radix of None \<Rightarrow> 0 | Some n \<Rightarrow> n)
      in if r \<noteq> 0 \<and> (r < 2 \<or> 36 < r) then NaN
         else
           let stripPrefix = (r = 0 \<or> r = 16);
               R0 = (if r = 0 then 10 else r);
               hex = (stripPrefix \<and> hasHexPrefix S1);
               S2 = (if hex then drop 2 S1 else S1);
               R = (if hex then 16 else R0);
               Z = takeWhile (isRadixDigit R) S2
           in if Z = [] then NaN
              else Num ((if neg then - 1 else 1) * digitsValue R Z))"

text \<open>\<open>v ? parseInt(v) : undefined\<close> and \<open>if (v) x = parseInt(v, 10)\<close>.\<close>

definition numParam :: "nat option \<Rightarrow> string option \<Rightarrow> jsnum option" where
  "numParam radix v =
     (case v of
        None \<Rightarrow> None
      | Some s \<Rightarrow> if s = [] then None else Some (parseInt s radix))"

text \<open>What reading \<open>Body.transformToByteArray\<close> throws when the response has no body.\<close>

definition bodyTypeError :: js_error where
  "bodyTypeError = TypeError ''Cannot read properties of undefined (reading 'transformToByteArray')''"

section \<open>config/projects.ts\<close>

text \<open>
  \<open>PROJECT_BUCKETS[projectName]\<close> is a property read on a plain object, so a name
  inherited from \<open>Object.prototype\<close> yields a (truthy) value that is not a bucket name.
  \<open>UndefinedBucket\<close> is a bucket name read from an environment variable that is not set.
\<close>

datatype bucket_ref = Bucket string | Inherited string | UndefinedBucket

definition objectPrototypeKeys :: "string list" where
  "objectPrototypeKeys =
     [''constructor'', ''__proto__'', ''hasOwnProperty'', ''isPrototypeOf'',
      ''propertyIsEnumerable'', ''toLocaleString'', ''toString'', ''valueOf'',
      ''__defineGetter__'', ''__defineSetter__'', ''__lookupGetter__'', ''__lookupSetter__'']"

definition PROJECT_BUCKETS :: "string \<Rightarrow> bucket_ref option" where
  "PROJECT_BUCKETS p =
     (if p = ''geerly'' then Some (Bucket ''geerly-cms-content'')
      else if p = ''farmify'' then Some (Bucket ''files-farmify'')
      else if p = ''sopilot'' then Some (Bucket ''files-sopilot'')
      else if p \<in> set objectPrototypeKeys then Some (Inherited p)
      else None)"

definition CACHE_TTL :: string where
  "CACHE_TTL = ''public, max-age=31536000''"

section \<open>Requests, responses and the outside world\<close>

text \<open>
  The Lambda event, with the fields the handlers read. A field that is absent in the
  event is \<open>None\<close>.
\<close>

record http_context =
  http_method :: "string option"
  http_path :: "string option"

record event =
  headers :: "(string \<rightharpoonup> string) option"
  pathParameters_proxy :: "string option"
  queryStringParameters :: "(string \<rightharpoonup> string) option"
  rawPath :: "string option"
  rawQueryString :: "string option"
  requestContext_http :: "http_context option"

text \<open>
  A response body is kept symbolic: \<open>JSON.stringify({error: m})\<close>,
  \<open>JSON.stringify({message: m, error: d})\<close>, or \<open>buffer.toString('base64')\<close>.
\<close>

datatype error_detail = OfEvent | OfError js_error | OfText string

datatype body = NoBody | ErrorJson string | MessageJson string error_detail | Base64 bytes

record response =
  statusCode :: nat
  resp_headers :: "(string \<times> string) list"
  resp_body :: body
  isBase64Encoded :: bool

text \<open>
  The object store and the codecs are outside the program. A \<open>GetObject\<close> either
  throws, or answers without a body, or with a body whose read throws or yields bytes
  (with the stored content type). \<open>sharp_meta\<close> is the construction of the
  \<open>sharp\<close> object followed by \<open>metadata()\<close>; a call chained on the object may throw
  when it is made (\<open>sharp_call\<close>); \<open>toBuffer\<close> is given the chain of calls made.
  \<open>ffmpeg_thumbnail\<close> is \<open>generateThumbnail\<close>: the temporary files and the
  \<open>ffmpeg\<close> process, with the thumbnail or the error it ends in.
\<close>

datatype get_result =
    SendThrows js_error
  | NoBodyInResponse
  | BodyThrows js_error
  | BodyOk bytes "string option"

datatype head_result = HeadOk | HeadThrows js_error

datatype sharp_op =
    Resize "jsnum option" "jsnum option"
  | ResizeInside "jsnum option" "jsnum option"
  | Rotate
  | Jpeg int
  | Png int
  | Webp int
  | Gif
  | ToFormat string "jsnum option"

record sharp_metadata =
  format :: "string option"
  orientation :: "nat option"

record world =
  s3_get :: "bucket_ref \<Rightarrow> string \<Rightarrow> get_result"
  s3_head :: "bucket_ref \<Rightarrow> string \<Rightarrow> head_result"
  s3_put :: "bucket_ref \<Rightarrow> string \<Rightarrow> bytes \<Rightarrow> string option \<Rightarrow> js_error option"
  sharp_meta :: "bytes \<Rightarrow> js_error + sharp_metadata"
  sharp_call :: "sharp_op \<Rightarrow> js_error option"
  sharp_toBuffer :: "bytes \<Rightarrow> sharp_op list \<Rightarrow> js_error + bytes"
  ffmpeg_thumbnail :: "bytes \<Rightarrow> js_error + bytes"
  env_transformedImageCacheTTL :: "string option"

text \<open>What a handler did to the outside world, in order.\<close>

datatype effect =
    S3GetObject bucket_ref string
  | S3HeadObject bucket_ref string
  | S3PutObject bucket_ref string bytes
  | SharpMetadata
  | SharpToBuffer "sharp_op list"
  | FfmpegThumbnail

definition isTransform :: "effect \<Rightarrow> bool" where
  "isTransform e = (case e of
       SharpMetadata \<Rightarrow> True
     | SharpToBuffer _ \<Rightarrow> True
     | FfmpegThumbnail \<Rightarrow> True
     | _ \<Rightarrow> False)"

definition errorResponse :: "nat \<Rightarrow> string \<Rightarrow> response" where
  "errorResponse code msg =
     \<lparr>statusCode = code, resp_headers = [], resp_body = ErrorJson msg, isBase64Encoded = False\<rparr>"

section \<open>functions/image-optimization/index.ts\<close>

record ParsedRequest =
  projectName :: string
  imagePath :: string
  width :: "jsnum option"
  height :: "jsnum option"
  quality :: "jsnum option"

definition parseRequest :: "event \<Rightarrow> ParsedRequest option" where
  "parseRequest ev =
     (let path = (case pathParameters_proxy ev of Some p \<Rightarrow> p | None \<Rightarrow> [])
      in if path = [] then None
         else (case split_js CHR ''/'' path of
                 p # q # rest \<Rightarrow>
                   (let imgPath = join_js ''/'' (q # rest)
                    in if p = [] \<or> imgPath = [] then None
                       else
                         let queryParams =
                               (case queryStringParameters ev of Some m \<Rightarrow> m | None \<Rightarrow> Map.empty)
                         in Some \<lparr>projectName = p, imagePath = imgPath,
                                  width = numParam None (queryParams ''w''),
                                  height = numParam None (queryParams ''h''),
                                  quality = numParam None (queryParams ''q'')\<rparr>)
               | _ \<Rightarrow> None))"

text \<open>
  \<open>getImageFromS3\<close>: \<open>Inr None\<close> is the \<open>null\<close> result, \<open>Inl e\<close> a thrown error.
\<close>

definition classifyS3Error :: "js_error \<Rightarrow> js_error + bytes option" where
  "classifyS3Error e =
     (if name e = ''NoSuchKey'' \<or> name e = ''NotFound'' then Inr None
      else if name e = ''NoSuchBucket'' then Inl (Error ''STORAGE_CONFIG_ERROR'')
      else if name e = ''AccessDenied'' then Inl (Error ''ACCESS_DENIED'')
      else Inl e)"

definition getImageFromS3 :: "world \<Rightarrow> bucket_ref \<Rightarrow> string \<Rightarrow> js_error + bytes option" where
  "getImageFromS3 w bucket key =
     (case s3_get w bucket key of
        BodyOk b ct \<Rightarrow> Inr (Some b)
      | NoBodyInResponse \<Rightarrow> Inr None
      | SendThrows e \<Rightarrow> classifyS3Error e
      | BodyThrows e \<Rightarrow> classifyS3Error e)"

definition supportedSourceFormats :: "string list" where
  "supportedSourceFormats = [''jpeg'', ''png'', ''webp'', ''gif'']"

text \<open>The \<open>catch\<close> of \<open>optimizeImage\<close>.\<close>

definition optimizeCatch :: "js_error \<Rightarrow> js_error" where
  "optimizeCatch e =
     (if message e = ''UNSUPPORTED_FORMAT'' \<or> message e = ''INVALID_QUALITY'' then e
      else Error ''OPTIMIZATION_FAILED'')"

definition encoderFor :: "string \<Rightarrow> int \<Rightarrow> sharp_op option" where
  "encoderFor fmt q =
     (if fmt = ''jpeg'' then Some (Jpeg q)
      else if fmt = ''png'' then Some (Png q)
      else if fmt = ''webp'' then Some (Webp q)
      else if fmt = ''gif'' then Some Gif
      else None)"

text \<open>\<open>quality || 80\<close>: an undefined, \<open>NaN\<close> or zero quality gives 80.\<close>

definition outputQualityOf :: "jsnum option \<Rightarrow> int" where
  "outputQualityOf ql = (case ql of Some (Num n) \<Rightarrow> if n \<noteq> 0 then n else 80 | _ \<Rightarrow> 80)"

text \<open>
  The \<open>try\<close> block of \<open>optimizeImage\<close>. The chained calls on \<open>sharp\<close> validate
  their arguments when they are called and may throw there; \<open>toBuffer\<close> runs the chain.
\<close>

definition optimizeTry ::
  "world \<Rightarrow> bytes \<Rightarrow> jsnum option \<Rightarrow> jsnum option \<Rightarrow> jsnum option
     \<Rightarrow> (js_error + bytes) \<times> effect list" where
  "optimizeTry w imageBuffer wd ht ql =
     (case sharp_meta w imageBuffer of
        Inl e \<Rightarrow> (Inl e, [SharpMetadata])
      | Inr metadata \<Rightarrow>
          (case format metadata of
             None \<Rightarrow> (Inl (Error ''UNSUPPORTED_FORMAT''), [SharpMetadata])
           | Some fmt \<Rightarrow>
               if fmt \<notin> set supportedSourceFormats
               then (Inl (Error ''UNSUPPORTED_FORMAT''), [SharpMetadata])
               else
                 let resize = (if truthy_num wd \<or> truthy_num ht then [ResizeInside wd ht] else [])
                 in (case (if resize = [] then None else sharp_call w (ResizeInside wd ht)) of
                       Some e \<Rightarrow> (Inl e, [SharpMetadata])
                     | None \<Rightarrow>
                         let outputQuality = outputQualityOf ql
                         in if outputQuality < 1 \<or> outputQuality > 100
                            then (Inl (Error ''INVALID_QUALITY''), [SharpMetadata])
                            else (case encoderFor fmt outputQuality of
                                    None \<Rightarrow> (Inl (Error ''UNSUPPORTED_FORMAT''), [SharpMetadata])
                                  | Some enc \<Rightarrow>
                                      (case sharp_call w enc of
                                         Some e \<Rightarrow> (Inl e, [SharpMetadata])
                                       | None \<Rightarrow>
                                           (sharp_toBuffer w imageBuffer (resize @ [enc]),
                                            [SharpMetadata, SharpToBuffer (resize @ [enc])]))))))"

definition optimizeImage ::
  "world \<Rightarrow> bytes \<Rightarrow> jsnum option \<Rightarrow> jsnum option \<Rightarrow> jsnum option
     \<Rightarrow> (js_error + bytes) \<times> effect list" where
  "optimizeImage w imageBuffer wd ht ql =
     (case optimizeTry w imageBuffer wd ht ql of
        (Inl e, tr) \<Rightarrow> (Inl (optimizeCatch e), tr)
      | (Inr out, tr) \<Rightarrow> (Inr out, tr))"

text \<open>The \<open>catch\<close> of the handler: a switch on the message of whatever was thrown.\<close>

definition handlerCatch :: "js_error \<Rightarrow> response" where
  "handlerCatch e =
     (if message e = ''STORAGE_CONFIG_ERROR'' then errorResponse 503 ''Storage configuration error''
      else if message e = ''ACCESS_DENIED'' then errorResponse 403 ''Access denied to image storage''
      else if message e = ''UNSUPPORTED_FORMAT'' then errorResponse 415 ''Unsupported image format''
      else if message e = ''INVALID_QUALITY''
        then errorResponse 400 ''Invalid quality parameter (must be between 1 and 100)''
      else if message e = ''OPTIMIZATION_FAILED'' then errorResponse 500 ''Failed to optimize image''
      else errorResponse 500 ''Internal server error'')"

definition trustedHeader :: "event \<Rightarrow> bool" where
  "trustedHeader ev =
     ((case headers ev of Some h \<Rightarrow> h | None \<Rightarrow> Map.empty) ''x-origin-verify'' = Some ''cloudfront'')"

text \<open>
  The handler from the destructuring of the parsed request on (project lookup, fetch,
  optimization, success response).
\<close>

definition serveImage ::
  "world \<Rightarrow> string \<Rightarrow> string \<Rightarrow> jsnum option \<Rightarrow> jsnum option \<Rightarrow> jsnum option
     \<Rightarrow> response \<times> effect list" where
  "serveImage w project imgPath wd ht ql =
     (case PROJECT_BUCKETS project of
        None \<Rightarrow> (errorResponse 404 ''Project not found'', [])
      | Some bucket \<Rightarrow>
          (case getImageFromS3 w bucket imgPath of
             Inl e \<Rightarrow> (handlerCatch e, [S3GetObject bucket imgPath])
           | Inr None \<Rightarrow> (errorResponse 404 ''Image not found'', [S3GetObject bucket imgPath])
           | Inr (Some imageBuffer) \<Rightarrow>
               (case optimizeImage w imageBuffer wd ht ql of
                  (Inl e, tr) \<Rightarrow> (handlerCatch e, S3GetObject bucket imgPath # tr)
                | (Inr optimizedImage, tr) \<Rightarrow>
                    (\<lparr>statusCode = 200,
                      resp_headers =
                        [(''Content-Type'', ''image/jpeg''),
                         (''Cache-Control'',
                          (case env_transformedImageCacheTTL w of
                             Some t \<Rightarrow> if t = [] then ''public, max-age=31536000'' else t
                           | None \<Rightarrow> ''public, max-age=31536000''))],
                      resp_body = Base64 optimizedImage,
                      isBase64Encoded = True\<rparr>,
                     S3GetObject bucket imgPath # tr))))"

definition handler :: "world \<Rightarrow> event \<Rightarrow> response \<times> effect list" where
  "handler w ev =
     (if \<not> trustedHeader ev then (errorResponse 403 ''Access denied'', [])
      else (case parseRequest ev of
              None \<Rightarrow> (errorResponse 400 ''Invalid request format'', [])
            | Some requestInfo \<Rightarrow>
                serveImage w (projectName requestInfo) (imagePath requestInfo)
                  (width requestInfo) (height requestInfo) (quality requestInfo)))"

section \<open>The image handler with operations in the path (unnamed/part\_004, first file)\<close>

text \<open>
  A plain JavaScript object with string keys: its own properties in creation order.
  \<open>Object.entries\<close> lists array-index keys first, in ascending numeric order, then the
  other keys in creation order.
\<close>

type_synonym jsobject = "(string \<times> string option) list"

definition isArrayIndex :: "string \<Rightarrow> bool" where
  "isArrayIndex k \<longleftrightarrow>
     k \<noteq> [] \<and> list_all (isRadixDigit 10) k \<and> (k = ''0'' \<or> take 1 k \<noteq> ''0'')
       \<and> digitsValue 10 k < 2 ^ 32 - 1"

definition setProperty :: "string \<Rightarrow> string option \<Rightarrow> jsobject \<Rightarrow> jsobject" where
  "setProperty k v obj =
     (if k \<in> set (map fst obj)
      then map (\<lambda>(k', v'). if k' = k then (k', v) else (k', v')) obj
      else obj @ [(k, v)])"

definition fromEntries :: "(string \<times> string option) list \<Rightarrow> jsobject" where
  "fromEntries es = foldl (\<lambda>obj (k, v). setProperty k v obj) [] es"

definition Object_entries :: "jsobject \<Rightarrow> (string \<times> string option) list" where
  "Object_entries obj =
     sort_key (\<lambda>(k, v). digitsValue 10 k) (filter (\<lambda>(k, v). isArrayIndex k) obj)
       @ filter (\<lambda>(k, v). \<not> isArrayIndex k) obj"

definition getProperty :: "jsobject \<Rightarrow> string \<Rightarrow> string option" where
  "getProperty obj k = (case map_of obj k of Some v \<Rightarrow> v | None \<Rightarrow> None)"

text \<open>\<open>operation.split('=')\<close> read as a \<open>[key, value]\<close> entry.\<close>

definition entryOf :: "string \<Rightarrow> string \<times> string option" where
  "entryOf operation =
     (case split_js CHR ''='' operation of
        k # v # _ \<Rightarrow> (k, Some v)
      | [k] \<Rightarrow> (k, None)
      | [] \<Rightarrow> ([], None))"

definition parseOperations :: "string \<Rightarrow> jsobject" where
  "parseOperations operationsString = fromEntries (map entryOf (split_js CHR '','' operationsString))"

text \<open>The template \<open>`${k}=${v}`\<close> prints an undefined value as \<open>undefined\<close>.\<close>

definition renderValue :: "string option \<Rightarrow> string" where
  "renderValue v = (case v of Some s \<Rightarrow> s | None \<Rightarrow> ''undefined'')"

definition renderEntry :: "string \<times> string option \<Rightarrow> string" where
  "renderEntry e = fst e @ ''='' @ renderValue (snd e)"

definition renderOperations :: "jsobject \<Rightarrow> string" where
  "renderOperations operations = join_js '','' (map renderEntry (Object_entries operations))"

text \<open>The \<open>Key\<close> of the \<open>PutObjectCommand\<close>: the derivative key.\<close>

definition derivativeKey :: "string \<Rightarrow> jsobject \<Rightarrow> string" where
  "derivativeKey imgPath operations = imgPath @ ''/'' @ renderOperations operations"

record environment =
  originalImageBucketName :: "string option"
  transformedImageBucketName :: "string option"
  transformedImageCacheTTL :: "string option"
  maxImageSize :: "string option"

definition MAX_IMAGE_SIZE :: "environment \<Rightarrow> jsnum" where
  "MAX_IMAGE_SIZE env =
     parseInt (case maxImageSize env of Some s \<Rightarrow> s | None \<Rightarrow> ''undefined'') None"

definition bucketOfEnv :: "string option \<Rightarrow> bucket_ref" where
  "bucketOfEnv v = (case v of Some b \<Rightarrow> Bucket b | None \<Rightarrow> UndefinedBucket)"

text \<open>\<open>a > b\<close> on numbers: false when either side is \<open>NaN\<close>.\<close>

definition greaterThan :: "jsnum \<Rightarrow> jsnum \<Rightarrow> bool" where
  "greaterThan a b = (case (a, b) of (Num x, Num y) \<Rightarrow> x > y | _ \<Rightarrow> False)"

text \<open>The two durations printed into the \<open>Server-Timing\<close> header, as the clock gave them.\<close>

record timing =
  transformDur :: string
  uploadDur :: string

text \<open>
  An \<open>async\<close> handler either returns a response or rejects, when something is thrown
  outside every \<open>try\<close>.
\<close>

datatype outcome = Returned response | Unhandled js_error

definition detailOfError :: "js_error \<Rightarrow> error_detail" where
  "detailOfError e = (if message e \<noteq> [] then OfText (message e) else OfError e)"

definition sendError :: "nat \<Rightarrow> string \<Rightarrow> error_detail \<Rightarrow> response" where
  "sendError code b detail =
     \<lparr>statusCode = code, resp_headers = [],
      resp_body = MessageJson (if b = [] then ''An error occurred'' else b) detail,
      isBase64Encoded = False\<rparr>"

text \<open>A header whose value is undefined is not sent.\<close>

definition optHeader :: "string \<Rightarrow> string option \<Rightarrow> (string \<times> string) list" where
  "optHeader k v = (case v of Some s \<Rightarrow> [(k, s)] | None \<Rightarrow> [])"

definition contentTypeOfFormat :: "string \<Rightarrow> string \<times> bool" where
  "contentTypeOfFormat f =
     (if f = ''jpeg'' then (''image/jpeg'', True)
      else if f = ''gif'' then (''image/gif'', False)
      else if f = ''webp'' then (''image/webp'', True)
      else if f = ''png'' then (''image/png'', False)
      else if f = ''avif'' then (''image/avif'', True)
      else (''image/jpeg'', True))"

text \<open>
  The \<open>try\<close> block around the transformation: the chain of calls and the content type.
  \<open>Inl e\<close> is an error thrown by one of the calls.
\<close>

definition transformChain ::
  "world \<Rightarrow> jsobject \<Rightarrow> sharp_metadata \<Rightarrow> string option
     \<Rightarrow> js_error + (sharp_op list \<times> string option)" where
  "transformChain w operations imageMetadata contentType =
     (let rs = Resize (numParam None (getProperty operations ''width''))
                      (numParam None (getProperty operations ''height''))
      in (case sharp_call w rs of
            Some e \<Rightarrow> Inl e
          | None \<Rightarrow>
              (let rot = (case orientation imageMetadata of
                            Some n \<Rightarrow> if n \<noteq> 0 then [Rotate] else []
                          | None \<Rightarrow> [])
               in (case (if rot = [] then None else sharp_call w Rotate) of
                     Some e \<Rightarrow> Inl e
                   | None \<Rightarrow>
                       (if \<not> truthy_str (getProperty operations ''format'')
                        then Inr (rs # rot,
                                  if contentType = Some ''image/svg+xml'' then Some ''image/png''
                                  else contentType)
                        else
                          (let f = renderValue (getProperty operations ''format'');
                               ct = fst (contentTypeOfFormat f);
                               isLossy = snd (contentTypeOfFormat f);
                               tf = (if truthy_str (getProperty operations ''quality'') \<and> isLossy
                                     then ToFormat f (numParam None (getProperty operations ''quality''))
                                     else ToFormat f None)
                           in (case sharp_call w tf of
                                 Some e \<Rightarrow> Inl e
                               | None \<Rightarrow> Inr (rs # (rot @ [tf]), Some ct))))))))"

definition redirectLocation :: "string \<Rightarrow> jsobject \<Rightarrow> string" where
  "redirectLocation imgPath operations = ''/'' @ imgPath @ ''?'' @ renderOperations operations"

text \<open>
  Everything after the transformation: the size test, the upload and the choice between
  sending the image, redirecting to it and refusing it.
\<close>

definition deliver ::
  "environment \<Rightarrow> world \<Rightarrow> timing \<Rightarrow> string \<Rightarrow> jsobject \<Rightarrow> bytes \<Rightarrow> string option
     \<Rightarrow> response \<times> effect list" where
  "deliver env w t imgPath operations transformedImage contentType =
     (let timingLog = ''img-download;dur='' @ transformDur t;
          imageTooBig = greaterThan (Num (int (length transformedImage))) (MAX_IMAGE_SIZE env);
          final = (\<lambda>tl. if imageTooBig
                         then sendError 403 ''Requested transformed image is too big'' (OfText ''Unknown error'')
                         else \<lparr>statusCode = 200,
                               resp_headers = optHeader ''Content-Type'' contentType
                                 @ optHeader ''Cache-Control'' (transformedImageCacheTTL env)
                                 @ [(''Server-Timing'', tl)],
                               resp_body = Base64 transformedImage,
                               isBase64Encoded = True\<rparr>)
      in if truthy_str (transformedImageBucketName env)
         then
           let bucket = bucketOfEnv (transformedImageBucketName env);
               key = derivativeKey imgPath operations
           in (case s3_put w bucket key transformedImage contentType of
                 None \<Rightarrow>
                   let timingLog' = timingLog @ '',img-upload;dur='' @ uploadDur t
                   in if imageTooBig
                      then (\<lparr>statusCode = 302,
                             resp_headers = [(''Location'', redirectLocation imgPath operations),
                                             (''Cache-Control'', ''private,no-store''),
                                             (''Server-Timing'', timingLog')],
                             resp_body = NoBody,
                             isBase64Encoded = False\<rparr>,
                            [S3PutObject bucket key transformedImage])
                      else (final timingLog', [S3PutObject bucket key transformedImage])
               | Some e \<Rightarrow> (final timingLog, [S3PutObject bucket key transformedImage]))
         else (final timingLog, []))"

text \<open>
  Everything before the size test: the checks on the request, the fetch and the
  transformation. \<open>Inl\<close> is an early exit of the handler, \<open>Inr\<close> the computed image.
\<close>

record computed =
  c_imagePath :: string
  c_operations :: jsobject
  c_chain :: "sharp_op list"
  c_image :: bytes
  c_contentType :: "string option"

definition computeArtifact ::
  "environment \<Rightarrow> world \<Rightarrow> event \<Rightarrow> (outcome \<times> effect list) + computed" where
  "computeArtifact env w ev =
     (case requestContext_http ev of
        None \<Rightarrow> Inl (Returned (sendError 400 ''Only GET method is supported'' OfEvent), [])
      | Some http \<Rightarrow>
          if http_method http \<noteq> Some ''GET''
          then Inl (Returned (sendError 400 ''Only GET method is supported'' OfEvent), [])
          else if \<not> trustedHeader ev
          then Inl (Returned (sendError 403 ''Unauthorized'' (OfText ''Request not from CloudFront'')), [])
          else if \<not> truthy_str (http_path http) \<or> http_path http = Some ''/''
          then Inl (Returned (sendError 400 ''Invalid request: no image path provided''
                                (OfText ''Unknown error'')), [])
          else
            let path = renderValue (http_path http);
                pathParts = split_js CHR ''/'' (drop 1 path);
                hasOps = (CHR ''='' \<in> set (last pathParts));
                operations = (if hasOps then parseOperations (last pathParts) else []);
                imgPath = (if hasOps then join_js ''/'' (butlast pathParts)
                           else join_js ''/'' pathParts)
            in if imgPath = []
               then Inl (Returned (sendError 400 ''Invalid request: no image path after operations''
                                     (OfText ''Unknown error'')), [])
               else
                 let src = bucketOfEnv (originalImageBucketName env);
                     notFound = (\<lambda>e. Inl (Returned (sendError 404 (''Image not found: '' @ imgPath)
                                                         (detailOfError e)),
                                            [S3GetObject src imgPath]))
                 in (case s3_get w src imgPath of
                       SendThrows e \<Rightarrow> notFound e
                     | NoBodyInResponse \<Rightarrow> notFound bodyTypeError
                     | BodyThrows e \<Rightarrow> Inl (Unhandled e, [S3GetObject src imgPath])
                     | BodyOk originalImageBody ct \<Rightarrow>
                         (case sharp_meta w originalImageBody of
                            Inl e \<Rightarrow> Inl (Unhandled e, [S3GetObject src imgPath, SharpMetadata])
                          | Inr imageMetadata \<Rightarrow>
                              (case transformChain w operations imageMetadata ct of
                                 Inl e \<Rightarrow>
                                   Inl (Returned (sendError 500 ''error transforming image''
                                                    (detailOfError e)),
                                        [S3GetObject src imgPath, SharpMetadata])
                               | Inr (chain, contentType) \<Rightarrow>
                                   (case sharp_toBuffer w originalImageBody chain of
                                      Inl e \<Rightarrow>
                                        Inl (Returned (sendError 500 ''error transforming image''
                                                         (detailOfError e)),
                                             [S3GetObject src imgPath, SharpMetadata,
                                              SharpToBuffer chain])
                                    | Inr transformedImage \<Rightarrow>
                                        Inr \<lparr>c_imagePath = imgPath, c_operations = operations,
                                             c_chain = chain, c_image = transformedImage,
                                             c_contentType = contentType\<rparr>)))))"

definition handler_ops :: "environment \<Rightarrow> world \<Rightarrow> timing \<Rightarrow> event \<Rightarrow> outcome \<times> effect list" where
  "handler_ops env w t ev =
     (case computeArtifact env w ev of
        Inl early \<Rightarrow> early
      | Inr c \<Rightarrow>
          (case deliver env w t (c_imagePath c) (c_operations c) (c_image c) (c_contentType c) of
             (r, tr) \<Rightarrow>
               (Returned r,
                [S3GetObject (bucketOfEnv (originalImageBucketName env)) (c_imagePath c),
                 SharpMetadata, SharpToBuffer (c_chain c)] @ tr)))"

section \<open>The image handler with operations in the query (unnamed/part\_004, second file)\<close>





section \<open>functions/video-thumbnail/index.ts, first file\<close>

definition video_parseRequest :: "event \<Rightarrow> (string \<times> string) option" where
  "video_parseRequest ev =
     (let path = (case pathParameters_proxy ev of Some p \<Rightarrow> p | None \<Rightarrow> [])
      in if path = [] then None
         else (case split_js CHR ''/'' path of
                 p # q # rest \<Rightarrow>
                   (let videoPath = join_js ''/'' (q # rest)
                    in if p = [] \<or> videoPath = [] then None else Some (p, videoPath))
               | _ \<Rightarrow> None))"

definition classifyVideoError :: "js_error \<Rightarrow> js_error + bytes option" where
  "classifyVideoError e =
     (if name e = ''NoSuchKey'' \<or> name e = ''NotFound'' then Inr None
      else if name e = ''NoSuchBucket'' then Inl (Error ''Storage configuration error'')
      else if name e = ''AccessDenied'' then Inl (Error ''Access denied to video storage'')
      else Inl e)"

definition getVideoFromS3 :: "world \<Rightarrow> bucket_ref \<Rightarrow> string \<Rightarrow> js_error + bytes option" where
  "getVideoFromS3 w bucket key =
     (case s3_get w bucket key of
        BodyOk b ct \<Rightarrow> Inr (Some b)
      | NoBodyInResponse \<Rightarrow> classifyVideoError bodyTypeError
      | SendThrows e \<Rightarrow> classifyVideoError e
      | BodyThrows e \<Rightarrow> classifyVideoError e)"

definition video_handlerCatch :: "js_error \<Rightarrow> response" where
  "video_handlerCatch e =
     (if message e = ''Storage configuration error'' then errorResponse 503 ''Service configuration error''
      else if message e = ''Access denied to video storage'' then errorResponse 403 ''Access denied''
      else errorResponse 500 ''Internal server error'')"

definition video_handler :: "world \<Rightarrow> event \<Rightarrow> response \<times> effect list" where
  "video_handler w ev =
     (case video_parseRequest ev of
        None \<Rightarrow> (errorResponse 404 ''Invalid path format'', [])
      | Some (project, videoPath) \<Rightarrow>
          (case PROJECT_BUCKETS project of
             None \<Rightarrow> (errorResponse 404 ''Project not found'', [])
           | Some bucket \<Rightarrow>
               (case getVideoFromS3 w bucket videoPath of
                  Inl e \<Rightarrow> (video_handlerCatch e, [S3GetObject bucket videoPath])
                | Inr None \<Rightarrow> (errorResponse 404 ''Video not found'', [S3GetObject bucket videoPath])
                | Inr (Some videoData) \<Rightarrow>
                    (case ffmpeg_thumbnail w videoData of
                       Inl e \<Rightarrow> (video_handlerCatch e, [S3GetObject bucket videoPath, FfmpegThumbnail])
                     | Inr thumbnail \<Rightarrow>
                         (\<lparr>statusCode = 200,
                           resp_headers = [(''Content-Type'', ''image/jpeg''),
                                           (''Cache-Control'', ''public, max-age=31536000'')],
                           resp_body = Base64 thumbnail,
                           isBase64Encoded = False\<rparr>,
                          [S3GetObject bucket videoPath, FfmpegThumbnail])))))"

section \<open>functions/video-thumbnail/index.ts, second file: probe, then generate\<close>

text \<open>\<open>checkThumbnailExists\<close>: \<open>Inl e\<close> is a rethrown error.\<close>

definition checkThumbnailExists :: "world \<Rightarrow> bucket_ref \<Rightarrow> string \<Rightarrow> js_error + bool" where
  "checkThumbnailExists w bucket key =
     (case s3_head w bucket (key @ ''.jpg'') of
        HeadOk \<Rightarrow> Inr True
      | HeadThrows e \<Rightarrow> if name e = ''NotFound'' then Inr False else Inl e)"

definition getVideoFromS3_cached :: "world \<Rightarrow> bucket_ref \<Rightarrow> string \<Rightarrow> js_error + bytes option" where
  "getVideoFromS3_cached w bucket key =
     (let catch = (\<lambda>e. if name e = ''NoSuchKey'' then Inr None else Inl e)
      in case s3_get w bucket key of
           BodyOk b ct \<Rightarrow> Inr (Some b)
         | NoBodyInResponse \<Rightarrow> catch bodyTypeError
         | SendThrows e \<Rightarrow> catch e
         | BodyThrows e \<Rightarrow> catch e)"

definition thumbnailKeyOf :: "string \<Rightarrow> string" where
  "thumbnailKeyOf videoPath = ''thumbnails/'' @ videoPath @ ''.jpg''"

definition redirectUrl :: "event \<Rightarrow> string \<Rightarrow> string \<Rightarrow> string" where
  "redirectUrl ev project thumbnailKey =
     ''https://image.boilingkettle.co/'' @ project @ ''/'' @ thumbnailKey
       @ (if truthy_str (rawQueryString ev) then ''?'' @ renderValue (rawQueryString ev) else [])"

definition redirectResponse :: "string \<Rightarrow> response" where
  "redirectResponse url =
     \<lparr>statusCode = 302,
      resp_headers = [(''Location'', url), (''Cache-Control'', CACHE_TTL)],
      resp_body = NoBody, isBase64Encoded = False\<rparr>"

definition video_handler_cached :: "world \<Rightarrow> event \<Rightarrow> response \<times> effect list" where
  "video_handler_cached w ev =
     (let failed = errorResponse 500 ''Error processing video''
      in case rawPath ev of
           None \<Rightarrow> (failed, [])
         | Some raw \<Rightarrow>
             (case split_js CHR ''/'' (drop 1 raw) of
                [] \<Rightarrow> (errorResponse 400 ''Invalid path format. Expected: {project}/path/to/video'', [])
              | project # rest \<Rightarrow>
                  (let videoPath = join_js ''/'' rest
                   in case PROJECT_BUCKETS project of
                        None \<Rightarrow> (errorResponse 404 (''Project '' @ [CHR 0x27] @ project @ [CHR 0x27] @ '' not found''), [])
                      | Some bucketName \<Rightarrow>
                          (let thumbnailKey = thumbnailKeyOf videoPath;
                               probe = S3HeadObject bucketName (thumbnailKey @ ''.jpg'');
                               fetch = S3GetObject bucketName videoPath
                           in case checkThumbnailExists w bucketName thumbnailKey of
                                Inl e \<Rightarrow> (failed, [probe])
                              | Inr True \<Rightarrow> (redirectResponse (redirectUrl ev project thumbnailKey), [probe])
                              | Inr False \<Rightarrow>
                                  (case getVideoFromS3_cached w bucketName videoPath of
                                     Inl e \<Rightarrow> (failed, [probe, fetch])
                                   | Inr None \<Rightarrow>
                                       (errorResponse 404 (''Video not found: '' @ videoPath), [probe, fetch])
                                   | Inr (Some videoData) \<Rightarrow>
                                       (case ffmpeg_thumbnail w videoData of
                                          Inl e \<Rightarrow> (failed, [probe, fetch, FfmpegThumbnail])
                                        | Inr thumbnailBuffer \<Rightarrow>
                                            (case s3_put w bucketName thumbnailKey thumbnailBuffer
                                                    (Some ''image/jpeg'') of
                                               Some e \<Rightarrow>
                                                 (failed,
                                                  [probe, fetch, FfmpegThumbnail,
                                                   S3PutObject bucketName thumbnailKey thumbnailBuffer])
                                             | None \<Rightarrow>
                                                 (redirectResponse (redirectUrl ev project thumbnailKey),
                                                  [probe, fetch, FfmpegThumbnail,
                                                   S3PutObject bucketName thumbnailKey thumbnailBuffer]))))))))"

section \<open>Specification-side notions and concrete requests\<close>

text \<open>
  The spec's contract for a path: it decomposes into \<open>{projectId}/{objectPath...}\<close> with
  a project identifier and something left after it.
\<close>

definition decomposes :: "string \<Rightarrow> bool" where
  "decomposes path \<longleftrightarrow>
     (\<exists>project objectPath. path = project @ ''/'' @ objectPath \<and> project \<noteq> []
        \<and> CHR ''/'' \<notin> set project \<and> objectPath \<noteq> [])"

definition proxyPath :: "event \<Rightarrow> string" where
  "proxyPath ev = (case pathParameters_proxy ev of Some p \<Rightarrow> p | None \<Rightarrow> [])"


text \<open>
  An operations segment as the README writes them: every comma-separated piece is one
  \<open>key=value\<close>, no key is given twice and no key is an array index.
\<close>

definition wellFormedOperations :: "string \<Rightarrow> bool" where
  "wellFormedOperations s \<longleftrightarrow>
     (let pieces = split_js CHR '','' s
      in list_all (\<lambda>p. length (split_js CHR ''='' p) = 2) pieces
         \<and> distinct (map (\<lambda>p. fst (entryOf p)) pieces)
         \<and> list_all (\<lambda>p. \<not> isArrayIndex (fst (entryOf p))) pieces)"

text \<open>The messages the handler's \<open>catch\<close> gives a status of their own.\<close>

definition statusOfMessage :: "string \<Rightarrow> nat" where
  "statusOfMessage m =
     (if m = ''STORAGE_CONFIG_ERROR'' then 503
      else if m = ''ACCESS_DENIED'' then 403
      else if m = ''UNSUPPORTED_FORMAT'' then 415
      else if m = ''INVALID_QUALITY'' then 400
      else 500)"

text \<open>
  The strings the image-optimization handler itself throws as error messages. A failure
  of the store is an error raised by the store client; its message is none of them.
\<close>

definition handlerSentinels :: "string list" where
  "handlerSentinels =
     [''STORAGE_CONFIG_ERROR'', ''ACCESS_DENIED'', ''UNSUPPORTED_FORMAT'', ''INVALID_QUALITY'',
      ''OPTIMIZATION_FAILED'']"

definition storeFault :: "js_error \<Rightarrow> bool" where
  "storeFault e \<longleftrightarrow> message e \<notin> set handlerSentinels"



text \<open>Every message the image-optimization handler can put into an error body.\<close>

definition clientMessages :: "string list" where
  "clientMessages =
     [''Image not found'', ''Storage configuration error'', ''Access denied to image storage'',
      ''Unsupported image format'', ''Invalid quality parameter (must be between 1 and 100)'',
      ''Failed to optimize image'', ''Internal server error'']"

text \<open>The status of an outcome, when the handler returned.\<close>

definition statusOf :: "outcome \<Rightarrow> nat option" where
  "statusOf out = (case out of Returned r \<Rightarrow> Some (statusCode r) | Unhandled e \<Rightarrow> None)"

text \<open>The write of the computed image to the derivative bucket was made and went through.\<close>

definition derivativeWritten :: "environment \<Rightarrow> world \<Rightarrow> computed \<Rightarrow> bool" where
  "derivativeWritten env w c \<longleftrightarrow>
     truthy_str (transformedImageBucketName env)
     \<and> s3_put w (bucketOfEnv (transformedImageBucketName env))
          (derivativeKey (c_imagePath c) (c_operations c)) (c_image c) (c_contentType c) = None"


text \<open>A store, codecs and requests to run the handlers on.\<close>

definition sampleImage :: bytes where
  "sampleImage = [255, 216, 255]"

definition sampleWorld :: "get_result \<Rightarrow> string \<Rightarrow> head_result \<Rightarrow> js_error option \<Rightarrow> world" where
  "sampleWorld g fmt h p =
     \<lparr>s3_get = (\<lambda>b k. g),
      s3_head = (\<lambda>b k. h),
      s3_put = (\<lambda>b k body ct. p),
      sharp_meta = (\<lambda>b. Inr \<lparr>format = Some fmt, orientation = None\<rparr>),
      sharp_call = (\<lambda>c. None),
      sharp_toBuffer = (\<lambda>b chain. Inr b),
      ffmpeg_thumbnail = (\<lambda>b. Inr b),
      env_transformedImageCacheTTL = None\<rparr>"

definition apiEvent :: "(string \<times> string) list \<Rightarrow> string \<Rightarrow> (string \<times> string) list \<Rightarrow> event" where
  "apiEvent hs path query =
     \<lparr>headers = Some (map_of hs),
      pathParameters_proxy = Some path,
      queryStringParameters = Some (map_of query),
      rawPath = None,
      rawQueryString = None,
      requestContext_http = None\<rparr>"

definition urlEvent :: "string \<Rightarrow> (string \<times> string) list \<Rightarrow> string \<Rightarrow> event" where
  "urlEvent m hs path =
     \<lparr>headers = Some (map_of hs),
      pathParameters_proxy = None,
      queryStringParameters = None,
      rawPath = Some path,
      rawQueryString = None,
      requestContext_http = Some \<lparr>http_method = Some m, http_path = Some path\<rparr>\<rparr>"

definition trusted :: "(string \<times> string) list" where
  "trusted = [(''x-origin-verify'', ''cloudfront'')]"

definition sampleEnv :: "string option \<Rightarrow> string \<Rightarrow> environment" where
  "sampleEnv derivativeBucket limit =
     \<lparr>originalImageBucketName = Some ''geerly-cms-content'',
      transformedImageBucketName = derivativeBucket,
      transformedImageCacheTTL = Some ''public, max-age=31536000'',
      maxImageSize = Some limit\<rparr>"

definition notFoundError :: js_error where
  "notFoundError = \<lparr>name = ''NotFound'', message = ''UnknownError''\<rparr>"

text \<open>
  A store that holds a video under every key and answers a \<open>HeadObject\<close> by the list of
  objects present.
\<close>

definition storedWorld :: "(bucket_ref \<times> string) list \<Rightarrow> bytes \<Rightarrow> world" where
  "storedWorld present video =
     \<lparr>s3_get = (\<lambda>b k. BodyOk video None),
      s3_head = (\<lambda>b k. if (b, k) \<in> set present then HeadOk else HeadThrows notFoundError),
      s3_put = (\<lambda>b k body ct. None),
      sharp_meta = (\<lambda>b. Inr \<lparr>format = Some ''jpeg'', orientation = None\<rparr>),
      sharp_call = (\<lambda>c. None),
      sharp_toBuffer = (\<lambda>b chain. Inr b),
      ffmpeg_thumbnail = (\<lambda>b. Inr b),
      env_transformedImageCacheTTL = None\<rparr>"


definition opsRequest :: event where
  "opsRequest = urlEvent ''GET'' trusted ''/photos/a.jpg/width=300''"

definition sampleTiming :: timing where
  "sampleTiming = \<lparr>transformDur = ''12'', uploadDur = ''34''\<rparr>"

section \<open>Properties\<close>

subsection \<open>Splitting and joining\<close>

lemma split_js_not_Nil: "split_js sep s \<noteq> []"
  by (induction s) (auto split: list.splits)

lemma join_js_Cons: "ps \<noteq> [] \<Longrightarrow> join_js sep (p # ps) = p @ sep @ join_js sep ps"
  by (cases ps) auto

lemma join_split_js: "join_js [sep] (split_js sep s) = s"
proof (induction s)
  case Nil
  show ?case by simp
next
  case (Cons c cs)
  show ?case
  proof (cases "c = sep")
    case True
    with Cons show ?thesis by (simp add: join_js_Cons split_js_not_Nil)
  next
    case False
    obtain p ps where sp: "split_js sep cs = p # ps"
      using split_js_not_Nil [of sep cs] by (cases "split_js sep cs") auto
    with Cons False show ?thesis by (cases ps) auto
  qed
qed

lemma split_js_sep_free: "p \<in> set (split_js sep s) \<Longrightarrow> sep \<notin> set p"
  by (induction s arbitrary: p) (auto split: if_splits list.splits)

lemma split_js_append: "sep \<notin> set p \<Longrightarrow> split_js sep (p @ sep # r) = p # split_js sep r"
  by (induction p) auto

lemma split_js_no_sep: "sep \<notin> set s \<Longrightarrow> split_js sep s = [s]"
  by (induction s) auto

subsection \<open>The request parser of the image-optimization handler\<close>

lemma parseRequest_Some_decomposes:
  assumes "parseRequest ev = Some r"
  shows "proxyPath ev = projectName r @ ''/'' @ imagePath r \<and> projectName r \<noteq> []
         \<and> CHR ''/'' \<notin> set (projectName r) \<and> imagePath r \<noteq> []"
proof -
  let ?path = "proxyPath ev"
  from assms obtain p q rest where sp: "split_js CHR ''/'' ?path = p # q # rest"
    and r: "projectName r = p" "imagePath r = join_js ''/'' (q # rest)"
    and ne: "p \<noteq> []" "join_js ''/'' (q # rest) \<noteq> []"
    by (auto simp: parseRequest_def proxyPath_def Let_def split: if_splits list.splits)
  have "join_js ''/'' (split_js CHR ''/'' ?path) = ?path" by (rule join_split_js)
  with sp have "?path = p @ ''/'' @ join_js ''/'' (q # rest)" by simp
  moreover have "CHR ''/'' \<notin> set p" using split_js_sep_free [of p "CHR ''/''" ?path] sp by simp
  ultimately show ?thesis using r ne by simp
qed

lemma decomposes_parseRequest:
  assumes "proxyPath ev = p @ ''/'' @ obj" "p \<noteq> []" "CHR ''/'' \<notin> set p" "obj \<noteq> []"
  shows "\<exists>r. parseRequest ev = Some r \<and> projectName r = p \<and> imagePath r = obj"
proof -
  have sp: "split_js CHR ''/'' (proxyPath ev) = p # split_js CHR ''/'' obj"
    using assms split_js_append [of "CHR ''/''" p obj] by simp
  obtain q rest where qr: "split_js CHR ''/'' obj = q # rest"
    using split_js_not_Nil [of "CHR ''/''" obj] by (cases "split_js CHR ''/'' obj") auto
  have j: "join_js ''/'' (q # rest) = obj" using join_split_js [of "CHR ''/''" obj] qr by simp
  have pne: "proxyPath ev \<noteq> []" using assms by simp
  show ?thesis using sp qr j pne assms(2,4)
    by (simp add: parseRequest_def proxyPath_def Let_def)
qed

lemma parseRequest_None_iff: "parseRequest ev = None \<longleftrightarrow> \<not> decomposes (proxyPath ev)"
proof
  assume n: "parseRequest ev = None"
  show "\<not> decomposes (proxyPath ev)"
  proof
    assume "decomposes (proxyPath ev)"
    then obtain p obj where "proxyPath ev = p @ ''/'' @ obj" "p \<noteq> []" "CHR ''/'' \<notin> set p" "obj \<noteq> []"
      by (auto simp: decomposes_def)
    from decomposes_parseRequest [OF this] n show False by auto
  qed
next
  assume nd: "\<not> decomposes (proxyPath ev)"
  show "parseRequest ev = None"
  proof (cases "parseRequest ev")
    case None then show ?thesis .
  next
    case (Some r)
    from parseRequest_Some_decomposes [OF Some] have "decomposes (proxyPath ev)"
      unfolding decomposes_def by blast
    with nd show ?thesis by simp
  qed
qed

lemma video_parseRequest_eq:
  "video_parseRequest ev = map_option (\<lambda>r. (projectName r, imagePath r)) (parseRequest ev)"
  by (simp add: video_parseRequest_def parseRequest_def Let_def split: list.splits)


subsection \<open>Evaluating the handlers on concrete requests\<close>

lemmas fixture_defs =
  sampleWorld_def apiEvent_def urlEvent_def trusted_def sampleImage_def sampleEnv_def sampleTiming_def

lemmas eval_defs =
  handler_def serveImage_def trustedHeader_def parseRequest_def numParam_def getImageFromS3_def
  classifyS3Error_def optimizeImage_def optimizeTry_def outputQualityOf_def optimizeCatch_def
  encoderFor_def supportedSourceFormats_def truthy_num_def truthy_str_def handlerCatch_def
  errorResponse_def PROJECT_BUCKETS_def Error_def

lemma parseInt_0: "parseInt ''0'' None = Num 0"
  by code_simp


lemma parseInt_wide: "parseInt ''wide'' None = NaN"
  by code_simp

lemma not_decomposes_geerly: "\<not> decomposes (proxyPath (apiEvent hs ''geerly'' q))"
proof -
  have "parseRequest (apiEvent hs ''geerly'' q) = None"
    by (simp add: parseRequest_def apiEvent_def)
  then show ?thesis by (simp add: parseRequest_None_iff)
qed

subsection \<open>The trust header\<close>

text \<open>
  The image-optimization handler answers 403 to every request without the marker, before
  anything else is looked at and without touching the store or the codec.
\<close>

lemma handler_untrusted:
  "\<not> trustedHeader ev \<Longrightarrow> handler w ev = (errorResponse 403 ''Access denied'', [])"
  by (simp add: handler_def)

text \<open>
  C2. Every request whose \<open>x-origin-verify\<close> header is absent or wrong is to be answered
  403 before any store access or transform. The video-thumbnail handler never reads the
  header: a request without it, for a video that is present, is fetched, decoded and
  answered 200.
\<close>

theorem video_handler_no_trust_check:
  "\<not> trustedHeader (apiEvent [] ''geerly/clips/a.mp4'' [])
   \<and> video_handler (sampleWorld (BodyOk sampleImage None) ''jpeg'' HeadOk None)
        (apiEvent [] ''geerly/clips/a.mp4'' [])
     = (\<lparr>statusCode = 200,
         resp_headers = [(''Content-Type'', ''image/jpeg''),
                         (''Cache-Control'', ''public, max-age=31536000'')],
         resp_body = Base64 sampleImage, isBase64Encoded = False\<rparr>,
        [S3GetObject (Bucket ''geerly-cms-content'') ''clips/a.mp4'', FfmpegThumbnail])"
  by (simp add: fixture_defs video_handler_def video_parseRequest_def trustedHeader_def
        PROJECT_BUCKETS_def getVideoFromS3_def)

subsection \<open>Store faults\<close>

lemma handlerCatch_status: "statusCode (handlerCatch e) = statusOfMessage (message e)"
  by (simp add: handlerCatch_def statusOfMessage_def errorResponse_def)

lemma handlerCatch_body: "resp_body (handlerCatch e) \<in> ErrorJson ` set clientMessages"
  by (simp add: handlerCatch_def errorResponse_def clientMessages_def)

text \<open>
  The fetcher rethrows a fault it does not name as it is, and the handler classifies what
  it catches by its message: for a thrown error of any message, the status is the one the
  handler gives that message, and the body is one of the handler's fixed messages.
\<close>

lemma store_fault_classification:
  assumes "trustedHeader ev" and "parseRequest ev = Some r"
    and "PROJECT_BUCKETS (projectName r) = Some bucket"
    and "s3_get w bucket (imagePath r) = SendThrows e \<or> s3_get w bucket (imagePath r) = BodyThrows e"
  shows "statusCode (fst (handler w ev)) =
           (if name e = ''NoSuchKey'' \<or> name e = ''NotFound'' then 404
            else if name e = ''NoSuchBucket'' then 503
            else if name e = ''AccessDenied'' then 403
            else statusOfMessage (message e))
         \<and> resp_body (fst (handler w ev)) \<in> ErrorJson ` set clientMessages
         \<and> snd (handler w ev) = [S3GetObject bucket (imagePath r)]"
proof -
  have g: "getImageFromS3 w bucket (imagePath r) = classifyS3Error e"
    using assms(4) by (auto simp: getImageFromS3_def)
  show ?thesis
    using assms(1-3) g handlerCatch_status [of e] handlerCatch_body [of e]
    by (auto simp: handler_def serveImage_def classifyS3Error_def errorResponse_def
          handlerCatch_def statusOfMessage_def Error_def clientMessages_def)
qed

text \<open>
  So an error that bears one of the handler's own strings is answered as that string, under
  whatever name.
\<close>

lemma store_fault_sentinel_message:
  "statusCode (fst (handler
      (sampleWorld (SendThrows \<lparr>name = ''InternalError'', message = ''ACCESS_DENIED''\<rparr>)
         ''jpeg'' HeadOk None)
      (apiEvent trusted ''geerly/a.jpg'' []))) = 403"
  by (simp add: fixture_defs eval_defs)

lemma sample_request_parsed:
  "parseRequest (apiEvent trusted ''geerly/a.jpg'' [])
     = Some \<lparr>projectName = ''geerly'', imagePath = ''a.jpg'', width = None, height = None,
             quality = None\<rparr>"
  by (simp add: parseRequest_def numParam_def fixture_defs)

text \<open>
  C3. For every request that reaches the fetch, a failure of the store is answered by its
  kind alone: object absent (\<open>NoSuchKey\<close>, \<open>NotFound\<close>) 404, bucket absent
  (\<open>NoSuchBucket\<close>) 503, access denied (\<open>AccessDenied\<close>) 403, any other fault 500. The
  body is the handler's fixed message for that kind, never the store's error, and the fetch
  is the only effect.
\<close>

theorem store_failure_mapping:
  assumes "trustedHeader ev" and "parseRequest ev = Some r"
    and "PROJECT_BUCKETS (projectName r) = Some bucket"
    and "s3_get w bucket (imagePath r) = SendThrows e \<or> s3_get w bucket (imagePath r) = BodyThrows e"
    and "storeFault e"
  shows "statusCode (fst (handler w ev)) =
           (if name e = ''NoSuchKey'' \<or> name e = ''NotFound'' then 404
            else if name e = ''NoSuchBucket'' then 503
            else if name e = ''AccessDenied'' then 403
            else 500)
         \<and> resp_body (fst (handler w ev)) =
             ErrorJson
               (if name e = ''NoSuchKey'' \<or> name e = ''NotFound'' then ''Image not found''
                else if name e = ''NoSuchBucket'' then ''Storage configuration error''
                else if name e = ''AccessDenied'' then ''Access denied to image storage''
                else ''Internal server error'')
         \<and> snd (handler w ev) = [S3GetObject bucket (imagePath r)]"
proof -
  have g: "getImageFromS3 w bucket (imagePath r) = classifyS3Error e"
    using assms(4) by (auto simp: getImageFromS3_def)
  have c: "handlerCatch e = errorResponse 500 ''Internal server error''"
    using assms(5) by (simp add: storeFault_def handlerSentinels_def handlerCatch_def)
  show ?thesis
    using assms(1-3) g c
    by (auto simp: handler_def serveImage_def classifyS3Error_def errorResponse_def
          handlerCatch_def Error_def)
qed

theorem store_failure_mapping_witness:
  "statusCode (fst (handler
      (sampleWorld (SendThrows \<lparr>name = ''NoSuchKey'', message = ''The specified key does not exist.''\<rparr>)
         ''jpeg'' HeadOk None)
      (apiEvent trusted ''geerly/a.jpg'' []))) = 404
   \<and> statusCode (fst (handler
      (sampleWorld (SendThrows \<lparr>name = ''NoSuchBucket'', message = ''The specified bucket does not exist''\<rparr>)
         ''jpeg'' HeadOk None)
      (apiEvent trusted ''geerly/a.jpg'' []))) = 503
   \<and> statusCode (fst (handler
      (sampleWorld (SendThrows \<lparr>name = ''AccessDenied'', message = ''Access Denied''\<rparr>)
         ''jpeg'' HeadOk None)
      (apiEvent trusted ''geerly/a.jpg'' []))) = 403
   \<and> statusCode (fst (handler
      (sampleWorld (BodyThrows \<lparr>name = ''SlowDown'', message = ''Please reduce your request rate.''\<rparr>)
         ''jpeg'' HeadOk None)
      (apiEvent trusted ''geerly/a.jpg'' []))) = 500
   \<and> resp_body (fst (handler
      (sampleWorld (BodyThrows \<lparr>name = ''SlowDown'', message = ''Please reduce your request rate.''\<rparr>)
         ''jpeg'' HeadOk None)
      (apiEvent trusted ''geerly/a.jpg'' []))) = ErrorJson ''Internal server error''"
proof -
  let ?ev = "apiEvent trusted ''geerly/a.jpg'' []"
  let ?r = "\<lparr>projectName = ''geerly'', imagePath = ''a.jpg'', width = None, height = None,
             quality = None\<rparr>"
  let ?b = "Bucket ''geerly-cms-content''"
  have t: "trustedHeader ?ev" by (simp add: trustedHeader_def fixture_defs)
  have b: "PROJECT_BUCKETS (projectName ?r) = Some ?b" by (simp add: PROJECT_BUCKETS_def)
  have g: "s3_get (sampleWorld (SendThrows e) ''jpeg'' HeadOk None) ?b (imagePath ?r) = SendThrows e
           \<or> s3_get (sampleWorld (SendThrows e) ''jpeg'' HeadOk None) ?b (imagePath ?r) = BodyThrows e" for e
    by (simp add: sampleWorld_def)
  have g': "s3_get (sampleWorld (BodyThrows e) ''jpeg'' HeadOk None) ?b (imagePath ?r) = SendThrows e
           \<or> s3_get (sampleWorld (BodyThrows e) ''jpeg'' HeadOk None) ?b (imagePath ?r) = BodyThrows e" for e
    by (simp add: sampleWorld_def)
  have f: "storeFault \<lparr>name = n, message = ''The specified key does not exist.''\<rparr>"
          "storeFault \<lparr>name = n, message = ''The specified bucket does not exist''\<rparr>"
          "storeFault \<lparr>name = n, message = ''Access Denied''\<rparr>"
          "storeFault \<lparr>name = n, message = ''Please reduce your request rate.''\<rparr>" for n
    by (simp_all add: storeFault_def handlerSentinels_def)
  have 1: "statusCode (fst (handler
      (sampleWorld (SendThrows \<lparr>name = ''NoSuchKey'', message = ''The specified key does not exist.''\<rparr>)
         ''jpeg'' HeadOk None) ?ev)) = 404"
    using store_failure_mapping [OF t sample_request_parsed b g f(1)] by simp
  have 2: "statusCode (fst (handler
      (sampleWorld (SendThrows \<lparr>name = ''NoSuchBucket'', message = ''The specified bucket does not exist''\<rparr>)
         ''jpeg'' HeadOk None) ?ev)) = 503"
    using store_failure_mapping [OF t sample_request_parsed b g f(2)] by simp
  have 3: "statusCode (fst (handler
      (sampleWorld (SendThrows \<lparr>name = ''AccessDenied'', message = ''Access Denied''\<rparr>)
         ''jpeg'' HeadOk None) ?ev)) = 403"
    using store_failure_mapping [OF t sample_request_parsed b g f(3)] by simp
  have 4: "statusCode (fst (handler
      (sampleWorld (BodyThrows \<lparr>name = ''SlowDown'', message = ''Please reduce your request rate.''\<rparr>)
         ''jpeg'' HeadOk None) ?ev)) = 500
     \<and> resp_body (fst (handler
      (sampleWorld (BodyThrows \<lparr>name = ''SlowDown'', message = ''Please reduce your request rate.''\<rparr>)
         ''jpeg'' HeadOk None) ?ev)) = ErrorJson ''Internal server error''"
    using store_failure_mapping [OF t sample_request_parsed b g' f(4)] by simp
  from 1 2 3 4 show ?thesis by (intro conjI) simp_all
qed

subsection \<open>Quality\<close>





lemma optimizeTry_supported:
  assumes "sharp_meta w b = Inr md" and "format md = Some fmt"
    and "fmt \<in> set supportedSourceFormats"
    and "(truthy_num wd \<or> truthy_num ht) \<longrightarrow> sharp_call w (ResizeInside wd ht) = None"
  shows "optimizeTry w b wd ht ql =
           (let resize = (if truthy_num wd \<or> truthy_num ht then [ResizeInside wd ht] else []);
                q = outputQualityOf ql
            in if q < 1 \<or> 100 < q then (Inl (Error ''INVALID_QUALITY''), [SharpMetadata])
               else (case encoderFor fmt q of
                       None \<Rightarrow> (Inl (Error ''UNSUPPORTED_FORMAT''), [SharpMetadata])
                     | Some enc \<Rightarrow>
                         (case sharp_call w enc of
                            Some e \<Rightarrow> (Inl e, [SharpMetadata])
                          | None \<Rightarrow> (sharp_toBuffer w b (resize @ [enc]),
                                       [SharpMetadata, SharpToBuffer (resize @ [enc])]))))"
  using assms by (simp add: optimizeTry_def Let_def)

text \<open>
  What the range check does: once the source is decoded, has a supported format and the
  resize call (if any) went through, a negative quality and a quality above 100 are refused
  with \<open>INVALID_QUALITY\<close> before anything is encoded, and a quality from 1 to 100 is
  passed to the encoder.
\<close>

lemma quality_out_of_range_rejected:
  assumes "sharp_meta w b = Inr md" and "format md = Some fmt"
    and "fmt \<in> set supportedSourceFormats"
    and "(truthy_num wd \<or> truthy_num ht) \<longrightarrow> sharp_call w (ResizeInside wd ht) = None"
    and "n < 0 \<or> 100 < n"
  shows "optimizeImage w b wd ht (Some (Num n)) = (Inl (Error ''INVALID_QUALITY''), [SharpMetadata])"
  using assms(5)
  by (auto simp: optimizeImage_def optimizeTry_supported [OF assms(1-4)] outputQualityOf_def
        optimizeCatch_def Error_def)

lemma quality_in_range_accepted:
  assumes "sharp_meta w b = Inr md" and "format md = Some fmt"
    and "fmt \<in> set supportedSourceFormats"
    and "(truthy_num wd \<or> truthy_num ht) \<longrightarrow> sharp_call w (ResizeInside wd ht) = None"
    and "1 \<le> n" and "n \<le> 100" and "encoderFor fmt n = Some enc" and "sharp_call w enc = None"
    and "sharp_toBuffer w b ((if truthy_num wd \<or> truthy_num ht then [ResizeInside wd ht] else []) @ [enc]) = Inr out"
  shows "fst (optimizeImage w b wd ht (Some (Num n))) = Inr out"
  using assms(5-9)
  by (auto simp: optimizeImage_def optimizeTry_supported [OF assms(1-4)] outputQualityOf_def)

text \<open>
  C6. Quality 0 is to fail with \<open>InvalidQuality\<close>. The request \<open>geerly/a.jpg?q=0\<close>, for
  a JPEG that is present, is answered 200 with the image encoded at quality 80: the zero is
  falsy in \<open>quality || 80\<close> and never reaches the range check.
\<close>

theorem quality_zero_accepted:
  "handler (sampleWorld (BodyOk sampleImage None) ''jpeg'' HeadOk None)
     (apiEvent trusted ''geerly/a.jpg'' [(''q'', ''0'')])
   = (\<lparr>statusCode = 200,
       resp_headers = [(''Content-Type'', ''image/jpeg''),
                       (''Cache-Control'', ''public, max-age=31536000'')],
       resp_body = Base64 sampleImage, isBase64Encoded = True\<rparr>,
      [S3GetObject (Bucket ''geerly-cms-content'') ''a.jpg'', SharpMetadata,
       SharpToBuffer [Jpeg 80]])"
  by (simp add: fixture_defs eval_defs parseInt_0)

subsection \<open>Malformed paths\<close>

text \<open>
  C7 (as stated, refuted). A path with no segment after the project is to be answered 400.
  Without the trust marker the image handler answers it 403, and the video-thumbnail
  handler answers it 404.
\<close>

theorem malformed_path_other_status:
  "\<not> decomposes (proxyPath (apiEvent [] ''geerly'' []))
   \<and> statusCode (fst (handler (sampleWorld NoBodyInResponse ''jpeg'' HeadOk None)
                         (apiEvent [] ''geerly'' []))) = 403
   \<and> statusCode (fst (video_handler (sampleWorld NoBodyInResponse ''jpeg'' HeadOk None)
                         (apiEvent [] ''geerly'' []))) = 404"
  using not_decomposes_geerly [of "[]" "[]"]
  by (simp add: handler_def video_handler_def video_parseRequest_def trustedHeader_def
        errorResponse_def apiEvent_def)

text \<open>
  The video-thumbnail handler answers a path that does not decompose with 404, without any
  store access or transform.
\<close>

lemma video_handler_malformed_path:
  "\<not> decomposes (proxyPath ev) \<Longrightarrow> video_handler w ev = (errorResponse 404 ''Invalid path format'', [])"
  by (simp add: parseRequest_None_iff [symmetric] video_handler_def video_parseRequest_eq)

text \<open>
  C7 (amended). For every request that carries the trust marker and whose path does not
  decompose into a project identifier followed by at least one further segment, the
  image-optimization handler returns 400 (\<open>Invalid request format\<close>) without any store
  access or transform.
\<close>

theorem malformed_path_rejected:
  assumes "trustedHeader ev" and "\<not> decomposes (proxyPath ev)"
  shows "handler w ev = (errorResponse 400 ''Invalid request format'', [])"
proof -
  from assms(2) have "parseRequest ev = None" by (simp add: parseRequest_None_iff)
  with assms(1) show ?thesis by (simp add: handler_def)
qed

theorem malformed_path_rejected_witness:
  "handler (sampleWorld NoBodyInResponse ''jpeg'' HeadOk None) (apiEvent trusted ''geerly'' [])
     = (errorResponse 400 ''Invalid request format'', [])"
proof -
  have t: "trustedHeader (apiEvent trusted ''geerly'' [])"
    by (simp add: trustedHeader_def fixture_defs)
  from malformed_path_rejected [OF t not_decomposes_geerly] show ?thesis .
qed

subsection \<open>Non-numeric parameters\<close>










text \<open>A quality with a numeric prefix is used as that number.\<close>

lemma quality_numeric_prefix_used:
  "statusCode (fst (handler (sampleWorld (BodyOk sampleImage None) ''jpeg'' HeadOk None)
                      (apiEvent trusted ''geerly/a.jpg'' [(''q'', ''101px'')]))) = 400
   \<and> snd (handler (sampleWorld (BodyOk sampleImage None) ''jpeg'' HeadOk None)
             (apiEvent trusted ''geerly/a.jpg'' [(''q'', ''12abc'')]))
     = [S3GetObject (Bucket ''geerly-cms-content'') ''a.jpg'', SharpMetadata, SharpToBuffer [Jpeg 12]]"
proof -
  have a: "parseInt ''101px'' None = Num 101" by code_simp
  have b: "parseInt ''12abc'' None = Num 12" by code_simp
  show ?thesis by (simp add: fixture_defs eval_defs a b)
qed

subsection \<open>The content type of a success\<close>






subsection \<open>The derivative key\<close>

lemma join_js_not_Nil: "p \<noteq> [] \<Longrightarrow> join_js sep (p # ps) \<noteq> []"
  by (cases ps) auto

lemma split_join_js:
  "ps \<noteq> [] \<Longrightarrow> \<forall>p \<in> set ps. sep \<notin> set p \<Longrightarrow> split_js sep (join_js [sep] ps) = ps"
proof (induction "[sep]" ps rule: join_js.induct)
  case 1
  then show ?case by simp
next
  case (2 p)
  then show ?case by (simp add: split_js_no_sep)
next
  case (3 p q ps)
  then show ?case by (simp add: split_js_append)
qed

lemma join_js_inj:
  assumes "\<forall>p \<in> set xs \<union> set ys. sep \<notin> set p \<and> p \<noteq> []"
    and "join_js [sep] xs = join_js [sep] ys"
  shows "xs = ys"
proof (cases "xs = [] \<or> ys = []")
  case True
  then show ?thesis
  proof (cases xs)
    case Nil
    then show ?thesis using assms join_js_not_Nil [of "hd ys" "[sep]" "tl ys"]
      by (cases ys) auto
  next
    case (Cons x xs')
    with True have "ys = []" by simp
    then show ?thesis using assms Cons join_js_not_Nil [of x "[sep]" xs'] by auto
  qed
next
  case False
  then have ne: "xs \<noteq> []" "ys \<noteq> []" by simp_all
  have fx: "\<forall>p \<in> set xs. sep \<notin> set p" and fy: "\<forall>p \<in> set ys. sep \<notin> set p"
    using assms(1) by simp_all
  have "xs = split_js sep (join_js [sep] xs)" by (simp only: split_join_js [OF ne(1) fx])
  also have "\<dots> = split_js sep (join_js [sep] ys)" by (simp only: assms(2))
  also have "\<dots> = ys" by (simp only: split_join_js [OF ne(2) fy])
  finally show ?thesis .
qed

lemma set_Object_entries: "set (Object_entries obj) = set obj"
  by (auto simp: Object_entries_def)

lemma set_setProperty: "set (setProperty k v obj) \<subseteq> insert (k, v) (set obj)"
  by (auto simp: setProperty_def split: if_splits)

lemma set_foldl_setProperty:
  "set (foldl (\<lambda>obj (k, v). setProperty k v obj) acc es) \<subseteq> set acc \<union> set es"
proof (induction es arbitrary: acc)
  case Nil
  show ?case by simp
next
  case (Cons e es)
  obtain k v where e: "e = (k, v)" by (cases e)
  have "set (foldl (\<lambda>obj (k, v). setProperty k v obj) (setProperty k v acc) es)
          \<subseteq> set (setProperty k v acc) \<union> set es" by (rule Cons.IH)
  also have "\<dots> \<subseteq> set acc \<union> set (e # es)" using set_setProperty [of k v acc] e by auto
  finally show ?case using e by simp
qed

lemma set_fromEntries: "set (fromEntries es) \<subseteq> set es"
  using set_foldl_setProperty [of "[]" es] by (simp add: fromEntries_def)

lemma split_js_subset_all: "\<forall>p \<in> set (split_js sep s). set p \<subseteq> set s"
proof (induction s)
  case Nil
  show ?case by simp
next
  case (Cons c cs)
  show ?case
  proof (cases "c = sep")
    case True
    with Cons show ?thesis by auto
  next
    case False
    obtain q qs where sp: "split_js sep cs = q # qs"
      using split_js_not_Nil [of sep cs] by (cases "split_js sep cs") auto
    with Cons False show ?thesis by auto
  qed
qed

lemma split_js_subset: "p \<in> set (split_js sep s) \<Longrightarrow> set p \<subseteq> set s"
  using split_js_subset_all by blast

lemma renderEntry_entryOf_comma_free:
  assumes "CHR '','' \<notin> set piece"
  shows "CHR '','' \<notin> set (renderEntry (entryOf piece))"
proof -
  have sub: "\<And>x. x \<in> set (split_js CHR ''='' piece) \<Longrightarrow> CHR '','' \<notin> set x"
    using split_js_subset assms by blast
  show ?thesis
    using sub
    by (cases "split_js CHR ''='' piece" rule: list.exhaust [case_names Nil Cons])
       (auto simp: renderEntry_def entryOf_def renderValue_def split: list.splits)
qed

lemma parseOperations_comma_free:
  "e \<in> set (Object_entries (parseOperations s)) \<Longrightarrow> CHR '','' \<notin> set (renderEntry e)"
proof -
  assume "e \<in> set (Object_entries (parseOperations s))"
  then have "e \<in> set (map entryOf (split_js CHR '','' s))"
    using set_fromEntries [of "map entryOf (split_js CHR '','' s)"]
    by (auto simp: set_Object_entries parseOperations_def)
  then obtain piece where "piece \<in> set (split_js CHR '','' s)" "e = entryOf piece" by auto
  then show ?thesis using renderEntry_entryOf_comma_free split_js_sep_free by blast
qed

lemma renderEntry_not_Nil: "renderEntry e \<noteq> []"
  by (simp add: renderEntry_def)

lemma derivativeKey_eq_iff:
  assumes "\<forall>e \<in> set (Object_entries a) \<union> set (Object_entries b). CHR '','' \<notin> set (renderEntry e)"
  shows "derivativeKey p a = derivativeKey p b
           \<longleftrightarrow> map renderEntry (Object_entries a) = map renderEntry (Object_entries b)"
proof
  assume "derivativeKey p a = derivativeKey p b"
  then have "join_js '','' (map renderEntry (Object_entries a))
               = join_js '','' (map renderEntry (Object_entries b))"
    by (simp add: derivativeKey_def renderOperations_def)
  moreover have "\<forall>x \<in> set (map renderEntry (Object_entries a)) \<union> set (map renderEntry (Object_entries b)).
                   CHR '','' \<notin> set x \<and> x \<noteq> []"
    using assms renderEntry_not_Nil by auto
  ultimately show "map renderEntry (Object_entries a) = map renderEntry (Object_entries b)"
    using join_js_inj [of "map renderEntry (Object_entries a)" "map renderEntry (Object_entries b)" "CHR '',''"]
    by simp
next
  assume "map renderEntry (Object_entries a) = map renderEntry (Object_entries b)"
  then show "derivativeKey p a = derivativeKey p b"
    by (simp add: derivativeKey_def renderOperations_def)
qed

lemma foldl_setProperty_distinct:
  "distinct (map fst (acc @ es)) \<Longrightarrow> foldl (\<lambda>obj (k, v). setProperty k v obj) acc es = acc @ es"
proof (induction es arbitrary: acc)
  case Nil
  show ?case by simp
next
  case (Cons e es)
  obtain k v where e: "e = (k, v)" by (cases e)
  from Cons.prems e have fresh: "k \<notin> set (map fst acc)" by auto
  then have sp: "setProperty k v acc = acc @ [(k, v)]" by (simp add: setProperty_def)
  from Cons.prems e have "distinct (map fst ((acc @ [(k, v)]) @ es))" by simp
  from Cons.IH [OF this] sp e show ?case by simp
qed

lemma fromEntries_distinct: "distinct (map fst es) \<Longrightarrow> fromEntries es = es"
  using foldl_setProperty_distinct [of "[]" es] by (simp add: fromEntries_def)

lemma Object_entries_no_index:
  "\<forall>e \<in> set obj. \<not> isArrayIndex (fst e) \<Longrightarrow> Object_entries obj = obj"
proof -
  assume a: "\<forall>e \<in> set obj. \<not> isArrayIndex (fst e)"
  then have "filter (\<lambda>(k, v). isArrayIndex k) obj = []"
    by (auto simp: filter_empty_conv)
  moreover from a have "filter (\<lambda>(k, v). \<not> isArrayIndex k) obj = obj"
    by (auto simp: filter_id_conv)
  ultimately show ?thesis by (simp add: Object_entries_def)
qed

lemma renderEntry_entryOf:
  assumes "length (split_js CHR ''='' piece) = 2"
  shows "renderEntry (entryOf piece) = piece"
proof -
  from assms obtain k v where kv: "split_js CHR ''='' piece = [k, v]"
    by (cases "split_js CHR ''='' piece" rule: list.exhaust; simp)
       (metis length_0_conv length_Suc_conv)
  have "join_js ''='' (split_js CHR ''='' piece) = piece" by (rule join_split_js)
  with kv show ?thesis by (simp add: renderEntry_def entryOf_def renderValue_def)
qed

lemma renderOperations_wellFormed:
  assumes "wellFormedOperations s"
  shows "renderOperations (parseOperations s) = s"
proof -
  let ?ps = "split_js CHR '','' s"
  from assms have two: "\<forall>p \<in> set ?ps. length (split_js CHR ''='' p) = 2"
    and dist: "distinct (map fst (map entryOf ?ps))"
    and noidx: "\<forall>e \<in> set (map entryOf ?ps). \<not> isArrayIndex (fst e)"
    by (simp_all add: wellFormedOperations_def Let_def list_all_iff comp_def)
  have "parseOperations s = map entryOf ?ps"
    using fromEntries_distinct [OF dist] by (simp add: parseOperations_def)
  moreover have "Object_entries (map entryOf ?ps) = map entryOf ?ps"
    using Object_entries_no_index [OF noidx] .
  moreover have "map renderEntry (map entryOf ?ps) = ?ps"
    using two by (simp add: renderEntry_entryOf map_idI)
  ultimately have "renderOperations (parseOperations s) = join_js '','' ?ps"
    by (simp add: renderOperations_def)
  then show ?thesis by (simp add: join_split_js)
qed

lemmas ops_defs = derivativeKey_def renderOperations_def renderEntry_def renderValue_def
  parseOperations_def fromEntries_def setProperty_def entryOf_def Object_entries_def isArrayIndex_def
  isRadixDigit_def digitValue_def digitsValue_def

text \<open>
  C1 (as stated, refuted). The key is to be the same for any two insertion orders of the
  same operations. The requests \<open>width=300,format=webp\<close> and \<open>format=webp,width=300\<close>
  give operation objects with the same entries and two different keys.
\<close>

theorem derivativeKey_order_dependent:
  "derivativeKey ''img.jpg'' (parseOperations ''width=300,format=webp'') = ''img.jpg/width=300,format=webp''
   \<and> derivativeKey ''img.jpg'' (parseOperations ''format=webp,width=300'') = ''img.jpg/format=webp,width=300''
   \<and> set (parseOperations ''width=300,format=webp'') = set (parseOperations ''format=webp,width=300'')"
  by (simp add: ops_defs insert_commute)

text \<open>
  C1 (amended). The key builder does not canonicalise: for every image path and any two
  operation strings of a request, the derivative keys are equal exactly when the two
  operation objects list the same \<open>k=v\<close> entries in the same order (the order of first
  mention in the request, array-index keys first). For a well-formed operations segment the
  key is the image path, a slash and the segment as the request wrote it.
\<close>

theorem derivativeKey_keeps_request_order:
  "(derivativeKey p (parseOperations s1) = derivativeKey p (parseOperations s2)
      \<longleftrightarrow> map renderEntry (Object_entries (parseOperations s1))
           = map renderEntry (Object_entries (parseOperations s2)))
   \<and> (wellFormedOperations s1 \<longrightarrow> derivativeKey p (parseOperations s1) = p @ ''/'' @ s1)"
proof
  show "derivativeKey p (parseOperations s1) = derivativeKey p (parseOperations s2)
      \<longleftrightarrow> map renderEntry (Object_entries (parseOperations s1))
           = map renderEntry (Object_entries (parseOperations s2))"
    using parseOperations_comma_free by (intro derivativeKey_eq_iff) blast
next
  show "wellFormedOperations s1 \<longrightarrow> derivativeKey p (parseOperations s1) = p @ ''/'' @ s1"
    by (simp add: derivativeKey_def renderOperations_wellFormed)
qed

theorem derivativeKey_keeps_request_order_witness:
  "derivativeKey ''img.jpg'' (parseOperations ''height=200,quality=80'')
     \<noteq> derivativeKey ''img.jpg'' (parseOperations ''quality=80,height=200'')
   \<and> derivativeKey ''img.jpg'' (parseOperations ''height=200,quality=80'')
     = derivativeKey ''img.jpg'' (parseOperations ''height=200,quality=80,height=200'')
   \<and> derivativeKey ''img.jpg'' (parseOperations ''height=200,quality=80'')
     = ''img.jpg/height=200,quality=80''"
proof -
  have a: "map renderEntry (Object_entries (parseOperations ''height=200,quality=80''))
             = [''height=200'', ''quality=80'']"
    by (simp add: ops_defs)
  have b: "map renderEntry (Object_entries (parseOperations ''quality=80,height=200''))
             = [''quality=80'', ''height=200'']"
    by (simp add: ops_defs)
  have c: "map renderEntry (Object_entries (parseOperations ''height=200,quality=80,height=200''))
             = [''height=200'', ''quality=80'']"
    by (simp add: ops_defs)
  have wf: "wellFormedOperations ''height=200,quality=80''"
    by (simp add: wellFormedOperations_def entryOf_def isArrayIndex_def isRadixDigit_def
          digitValue_def)
  have 1: "derivativeKey ''img.jpg'' (parseOperations ''height=200,quality=80'')
             \<noteq> derivativeKey ''img.jpg'' (parseOperations ''quality=80,height=200'')"
    using derivativeKey_keeps_request_order
            [of "''img.jpg''" "''height=200,quality=80''" "''quality=80,height=200''"] a b
    by simp
  have 2: "derivativeKey ''img.jpg'' (parseOperations ''height=200,quality=80'')
             = derivativeKey ''img.jpg'' (parseOperations ''height=200,quality=80,height=200'')"
    using derivativeKey_keeps_request_order
            [of "''img.jpg''" "''height=200,quality=80''" "''height=200,quality=80,height=200''"] a c
    by simp
  have 3: "derivativeKey ''img.jpg'' (parseOperations ''height=200,quality=80'')
             = ''img.jpg/height=200,quality=80''"
    using derivativeKey_keeps_request_order
            [of "''img.jpg''" "''height=200,quality=80''" "''height=200,quality=80''"] wf
    by simp
  from 1 2 3 show ?thesis by (intro conjI)
qed

subsection \<open>Delivery\<close>

lemmas compute_defs = computeArtifact_def trustedHeader_def truthy_str_def renderValue_def
  bucketOfEnv_def transformChain_def getProperty_def numParam_def

lemma parseInt_300: "parseInt ''300'' None = Num 300" by code_simp
lemma parseInt_2: "parseInt ''2'' None = Num 2" by code_simp


lemma parse_width_300: "parseOperations ''width=300'' = [(''width'', Some ''300'')]"
  by (simp add: parseOperations_def fromEntries_def setProperty_def entryOf_def)

lemma computeArtifact_opsRequest:
  "computeArtifact (sampleEnv b lim) (sampleWorld (BodyOk sampleImage (Some ''image/jpeg'')) ''jpeg'' h p) opsRequest
   = Inr \<lparr>c_imagePath = ''photos/a.jpg'', c_operations = [(''width'', Some ''300'')],
          c_chain = [Resize (Some (Num 300)) None], c_image = sampleImage,
          c_contentType = Some ''image/jpeg''\<rparr>"
  by (simp add: opsRequest_def fixture_defs compute_defs parse_width_300 parseInt_300)



lemma MAX_IMAGE_SIZE_2: "MAX_IMAGE_SIZE (sampleEnv b ''2'') = Num 2"
  by (simp add: MAX_IMAGE_SIZE_def sampleEnv_def parseInt_2)

lemma sampleEnv_fields:
  "originalImageBucketName (sampleEnv b lim) = Some ''geerly-cms-content''"
  "transformedImageBucketName (sampleEnv b lim) = b"
  "transformedImageCacheTTL (sampleEnv b lim) = Some ''public, max-age=31536000''"
  by (simp_all add: sampleEnv_def)

lemma sampleWorld_fields:
  "s3_get (sampleWorld g fmt h p) = (\<lambda>b k. g)"
  "s3_head (sampleWorld g fmt h p) = (\<lambda>b k. h)"
  "s3_put (sampleWorld g fmt h p) = (\<lambda>b k body ct. p)"
  "ffmpeg_thumbnail (sampleWorld g fmt h p) = Inr"
  by (simp_all add: sampleWorld_def fun_eq_iff)

lemma deliver_inline:
  assumes "\<not> greaterThan (Num (int (length img))) (MAX_IMAGE_SIZE env)"
  shows "\<exists>hs. fst (deliver env w t p ops img ct)
           = \<lparr>statusCode = 200, resp_headers = hs, resp_body = Base64 img, isBase64Encoded = True\<rparr>
         \<and> map_of hs ''Content-Type'' = ct"
  using assms
  by (auto simp: deliver_def Let_def optHeader_def split: option.splits)

lemma deliver_redirect:
  assumes "greaterThan (Num (int (length img))) (MAX_IMAGE_SIZE env)"
    and "truthy_str (transformedImageBucketName env)"
    and "s3_put w (bucketOfEnv (transformedImageBucketName env)) (derivativeKey p ops) img ct = None"
  shows "fst (deliver env w t p ops img ct)
           = \<lparr>statusCode = 302,
              resp_headers = [(''Location'', redirectLocation p ops),
                              (''Cache-Control'', ''private,no-store''),
                              (''Server-Timing'',
                               ''img-download;dur='' @ transformDur t @ '',img-upload;dur='' @ uploadDur t)],
              resp_body = NoBody, isBase64Encoded = False\<rparr>"
  using assms by (simp add: deliver_def Let_def)

lemma deliver_too_large:
  assumes "greaterThan (Num (int (length img))) (MAX_IMAGE_SIZE env)"
    and "\<not> (truthy_str (transformedImageBucketName env)
            \<and> s3_put w (bucketOfEnv (transformedImageBucketName env)) (derivativeKey p ops) img ct = None)"
  shows "fst (deliver env w t p ops img ct)
           = sendError 403 ''Requested transformed image is too big'' (OfText ''Unknown error'')"
  using assms by (auto simp: deliver_def Let_def split: option.splits)

lemma handler_ops_computed:
  "computeArtifact env w ev = Inr c \<Longrightarrow>
     fst (handler_ops env w t ev)
       = Returned (fst (deliver env w t (c_imagePath c) (c_operations c) (c_image c) (c_contentType c)))"
  by (simp add: handler_ops_def split: prod.splits)

text \<open>
  The statuses of the delivery, for every computed image and a numeric size limit: an image
  no longer than the limit is returned inline (200, base64 body); a longer one is answered
  302 when the write to the derivative bucket went through, and with the too-big error
  (403) otherwise.
\<close>

lemma delivery_statuses:
  assumes "computeArtifact env w ev = Inr c" and "MAX_IMAGE_SIZE env = Num m"
  shows "(int (length (c_image c)) \<le> m \<longrightarrow>
            (\<exists>hs. fst (handler_ops env w t ev)
                     = Returned \<lparr>statusCode = 200, resp_headers = hs,
                                 resp_body = Base64 (c_image c), isBase64Encoded = True\<rparr>))
         \<and> (m < int (length (c_image c)) \<and> derivativeWritten env w c \<longrightarrow>
              (\<exists>tm. fst (handler_ops env w t ev)
                       = Returned \<lparr>statusCode = 302,
                                   resp_headers =
                                     [(''Location'', redirectLocation (c_imagePath c) (c_operations c)),
                                      (''Cache-Control'', ''private,no-store''),
                                      (''Server-Timing'', tm)],
                                   resp_body = NoBody, isBase64Encoded = False\<rparr>))
         \<and> (m < int (length (c_image c)) \<and> \<not> derivativeWritten env w c \<longrightarrow>
              fst (handler_ops env w t ev)
                = Returned (sendError 403 ''Requested transformed image is too big''
                              (OfText ''Unknown error'')))"
proof (intro conjI impI)
  assume "int (length (c_image c)) \<le> m"
  then have "\<not> greaterThan (Num (int (length (c_image c)))) (MAX_IMAGE_SIZE env)"
    using assms(2) by (simp add: greaterThan_def)
  from deliver_inline [OF this] handler_ops_computed [OF assms(1)]
  show "\<exists>hs. fst (handler_ops env w t ev)
               = Returned \<lparr>statusCode = 200, resp_headers = hs,
                           resp_body = Base64 (c_image c), isBase64Encoded = True\<rparr>"
    by metis
next
  assume a: "m < int (length (c_image c)) \<and> derivativeWritten env w c"
  then have g: "greaterThan (Num (int (length (c_image c)))) (MAX_IMAGE_SIZE env)"
    using assms(2) by (simp add: greaterThan_def)
  from a have "truthy_str (transformedImageBucketName env)"
    and "s3_put w (bucketOfEnv (transformedImageBucketName env))
           (derivativeKey (c_imagePath c) (c_operations c)) (c_image c) (c_contentType c) = None"
    by (simp_all add: derivativeWritten_def)
  from deliver_redirect [OF g this] handler_ops_computed [OF assms(1)]
  show "\<exists>tm. fst (handler_ops env w t ev)
               = Returned \<lparr>statusCode = 302,
                           resp_headers =
                             [(''Location'', redirectLocation (c_imagePath c) (c_operations c)),
                              (''Cache-Control'', ''private,no-store''),
                              (''Server-Timing'', tm)],
                           resp_body = NoBody, isBase64Encoded = False\<rparr>"
    by simp
next
  assume a: "m < int (length (c_image c)) \<and> \<not> derivativeWritten env w c"
  then have g: "greaterThan (Num (int (length (c_image c)))) (MAX_IMAGE_SIZE env)"
    using assms(2) by (simp add: greaterThan_def)
  from a have "\<not> (truthy_str (transformedImageBucketName env)
            \<and> s3_put w (bucketOfEnv (transformedImageBucketName env))
                 (derivativeKey (c_imagePath c) (c_operations c)) (c_image c) (c_contentType c) = None)"
    by (simp add: derivativeWritten_def)
  from deliver_too_large [OF g this] handler_ops_computed [OF assms(1)]
  show "fst (handler_ops env w t ev)
          = Returned (sendError 403 ''Requested transformed image is too big'' (OfText ''Unknown error''))"
    by simp
qed

lemma computeArtifact_redirected:
  "computeArtifact (sampleEnv b lim) (sampleWorld (BodyOk sampleImage (Some ''image/jpeg'')) ''jpeg'' h p)
     (urlEvent ''GET'' trusted ''/photos/a.jpg'')
   = Inr \<lparr>c_imagePath = ''photos/a.jpg'', c_operations = [],
          c_chain = [Resize None None], c_image = sampleImage,
          c_contentType = Some ''image/jpeg''\<rparr>"
  by (simp add: fixture_defs compute_defs)

text \<open>
  C4. An image over the limit whose write succeeded is to be answered with a redirect to
  the derivative's location. The request \<open>/photos/a.jpg/width=300\<close> writes the
  derivative under the key \<open>photos/a.jpg/width=300\<close> and redirects to
  \<open>/photos/a.jpg?width=300\<close>; the handler reads the path only, so the redirected request
  is \<open>/photos/a.jpg\<close>, with no operations: the original image, not the derivative.
\<close>

theorem redirect_location_not_derivative:
  "handler_ops (sampleEnv (Some ''derivatives'') ''2'')
     (sampleWorld (BodyOk sampleImage (Some ''image/jpeg'')) ''jpeg'' HeadOk None)
     sampleTiming (urlEvent ''GET'' trusted ''/photos/a.jpg/width=300'')
   = (Returned \<lparr>statusCode = 302,
                resp_headers = [(''Location'', ''/photos/a.jpg?width=300''),
                                (''Cache-Control'', ''private,no-store''),
                                (''Server-Timing'', ''img-download;dur=12,img-upload;dur=34'')],
                resp_body = NoBody, isBase64Encoded = False\<rparr>,
      [S3GetObject (Bucket ''geerly-cms-content'') ''photos/a.jpg'', SharpMetadata,
       SharpToBuffer [Resize (Some (Num 300)) None],
       S3PutObject (Bucket ''derivatives'') ''photos/a.jpg/width=300'' sampleImage])
   \<and> computeArtifact (sampleEnv (Some ''derivatives'') ''2'')
        (sampleWorld (BodyOk sampleImage (Some ''image/jpeg'')) ''jpeg'' HeadOk None)
        (urlEvent ''GET'' trusted ''/photos/a.jpg'')
     = Inr \<lparr>c_imagePath = ''photos/a.jpg'', c_operations = [],
            c_chain = [Resize None None], c_image = sampleImage,
            c_contentType = Some ''image/jpeg''\<rparr>"
proof -
  let ?env = "sampleEnv (Some ''derivatives'') ''2''"
  let ?w = "sampleWorld (BodyOk sampleImage (Some ''image/jpeg'')) ''jpeg'' HeadOk None"
  have key: "derivativeKey ''photos/a.jpg'' [(''width'', Some ''300'')] = ''photos/a.jpg/width=300''"
    by (simp add: ops_defs)
  have loc: "redirectLocation ''photos/a.jpg'' [(''width'', Some ''300'')] = ''/photos/a.jpg?width=300''"
    by (simp add: redirectLocation_def ops_defs)
  have big: "greaterThan (Num (int (length sampleImage))) (MAX_IMAGE_SIZE ?env)"
    by (simp add: MAX_IMAGE_SIZE_2 greaterThan_def sampleImage_def)
  have d: "deliver ?env ?w sampleTiming ''photos/a.jpg'' [(''width'', Some ''300'')] sampleImage (Some ''image/jpeg'')
     = (\<lparr>statusCode = 302,
                resp_headers = [(''Location'', ''/photos/a.jpg?width=300''),
                                (''Cache-Control'', ''private,no-store''),
                                (''Server-Timing'', ''img-download;dur=12,img-upload;dur=34'')],
                resp_body = NoBody, isBase64Encoded = False\<rparr>,
        [S3PutObject (Bucket ''derivatives'') ''photos/a.jpg/width=300'' sampleImage])"
    using big
    by (simp add: deliver_def Let_def key loc sampleEnv_fields sampleWorld_fields truthy_str_def
          bucketOfEnv_def sampleTiming_def)
  have c: "computeArtifact ?env ?w (urlEvent ''GET'' trusted ''/photos/a.jpg/width=300'')
     = Inr \<lparr>c_imagePath = ''photos/a.jpg'', c_operations = [(''width'', Some ''300'')],
          c_chain = [Resize (Some (Num 300)) None], c_image = sampleImage,
          c_contentType = Some ''image/jpeg''\<rparr>"
    using computeArtifact_opsRequest [of "Some ''derivatives''" "''2''" HeadOk None]
    by (simp add: opsRequest_def)
  have 1: "handler_ops ?env ?w sampleTiming (urlEvent ''GET'' trusted ''/photos/a.jpg/width=300'')
   = (Returned \<lparr>statusCode = 302,
                resp_headers = [(''Location'', ''/photos/a.jpg?width=300''),
                                (''Cache-Control'', ''private,no-store''),
                                (''Server-Timing'', ''img-download;dur=12,img-upload;dur=34'')],
                resp_body = NoBody, isBase64Encoded = False\<rparr>,
      [S3GetObject (Bucket ''geerly-cms-content'') ''photos/a.jpg'', SharpMetadata,
       SharpToBuffer [Resize (Some (Num 300)) None],
       S3PutObject (Bucket ''derivatives'') ''photos/a.jpg/width=300'' sampleImage])"
    by (simp add: handler_ops_def c d sampleEnv_fields bucketOfEnv_def)
  from 1 computeArtifact_redirected [of "Some ''derivatives''" "''2''" HeadOk None]
  show ?thesis by (intro conjI)
qed

theorem redirect_location_not_derivative_witness:
  "statusOf (fst (handler_ops (sampleEnv (Some ''derivatives'') ''2'')
       (sampleWorld (BodyOk sampleImage (Some ''image/jpeg'')) ''jpeg'' HeadOk None)
       sampleTiming (urlEvent ''GET'' trusted ''/photos/a.jpg/width=300''))) = Some 302
   \<and> last (snd (handler_ops (sampleEnv (Some ''derivatives'') ''2'')
       (sampleWorld (BodyOk sampleImage (Some ''image/jpeg'')) ''jpeg'' HeadOk None)
       sampleTiming (urlEvent ''GET'' trusted ''/photos/a.jpg/width=300'')))
     = S3PutObject (Bucket ''derivatives'') ''photos/a.jpg/width=300'' sampleImage"
proof -
  from redirect_location_not_derivative
  have "handler_ops (sampleEnv (Some ''derivatives'') ''2'')
     (sampleWorld (BodyOk sampleImage (Some ''image/jpeg'')) ''jpeg'' HeadOk None)
     sampleTiming (urlEvent ''GET'' trusted ''/photos/a.jpg/width=300'')
   = (Returned \<lparr>statusCode = 302,
                resp_headers = [(''Location'', ''/photos/a.jpg?width=300''),
                                (''Cache-Control'', ''private,no-store''),
                                (''Server-Timing'', ''img-download;dur=12,img-upload;dur=34'')],
                resp_body = NoBody, isBase64Encoded = False\<rparr>,
      [S3GetObject (Bucket ''geerly-cms-content'') ''photos/a.jpg'', SharpMetadata,
       SharpToBuffer [Resize (Some (Num 300)) None],
       S3PutObject (Bucket ''derivatives'') ''photos/a.jpg/width=300'' sampleImage])"
    by (rule conjunct1)
  then show ?thesis by (simp add: statusOf_def)
qed

subsection \<open>Write failures\<close>


lemmas video_defs = video_handler_cached_def checkThumbnailExists_def getVideoFromS3_cached_def
  thumbnailKeyOf_def redirectUrl_def redirectResponse_def PROJECT_BUCKETS_def errorResponse_def
  truthy_str_def


text \<open>
  The video-thumbnail handler does not guard its write: when the probe misses, the video
  is fetched and decoded and the write fails, the answer is 500.
\<close>

lemma video_write_failure_fatal:
  assumes "rawPath ev = Some raw" and "split_js CHR ''/'' (drop 1 raw) = project # rest"
    and "PROJECT_BUCKETS project = Some bucket"
    and "checkThumbnailExists w bucket (thumbnailKeyOf (join_js ''/'' rest)) = Inr False"
    and "getVideoFromS3_cached w bucket (join_js ''/'' rest) = Inr (Some videoData)"
    and "ffmpeg_thumbnail w videoData = Inr thumbnail"
    and "s3_put w bucket (thumbnailKeyOf (join_js ''/'' rest)) thumbnail (Some ''image/jpeg'') = Some e"
  shows "fst (video_handler_cached w ev) = errorResponse 500 ''Error processing video''"
  using assms by (simp add: video_handler_cached_def Let_def)



subsection \<open>The cache probe of the video handler\<close>

text \<open>
  The probe appends \<open>.jpg\<close> to a key that already ends in it: the key it reads is not the
  key the handler writes the thumbnail to.
\<close>

lemma probe_key_not_written_key: "thumbnailKeyOf videoPath @ ''.jpg'' \<noteq> thumbnailKeyOf videoPath"
  by simp

text \<open>When the probe does answer true, the handler redirects and does nothing else.\<close>

lemma probe_hit_redirects:
  assumes "rawPath ev = Some raw" and "split_js CHR ''/'' (drop 1 raw) = project # rest"
    and "PROJECT_BUCKETS project = Some bucket"
    and "checkThumbnailExists w bucket (thumbnailKeyOf (join_js ''/'' rest)) = Inr True"
  shows "video_handler_cached w ev
           = (\<lparr>statusCode = 302,
               resp_headers =
                 [(''Location'', redirectUrl ev project (thumbnailKeyOf (join_js ''/'' rest))),
                  (''Cache-Control'', CACHE_TTL)],
               resp_body = NoBody, isBase64Encoded = False\<rparr>,
              [S3HeadObject bucket (thumbnailKeyOf (join_js ''/'' rest) @ ''.jpg'')])
         \<and> (\<forall>e \<in> set (snd (video_handler_cached w ev)). \<not> isTransform e)"
  using assms
  by (simp add: video_handler_cached_def Let_def redirectResponse_def isTransform_def)

text \<open>
  C8. A video request whose derivative already exists is to be answered 302 without any
  decode. With the thumbnail of \<open>/geerly/clips/a.mp4\<close> present under the key the handler
  writes, \<open>thumbnails/clips/a.mp4.jpg\<close>, the probe reads
  \<open>thumbnails/clips/a.mp4.jpg.jpg\<close> and misses: the video is fetched, decoded and written
  again before the 302.
\<close>

theorem cached_thumbnail_decoded_again:
  "s3_head (storedWorld [(Bucket ''geerly-cms-content'', ''thumbnails/clips/a.mp4.jpg'')] sampleImage)
     (Bucket ''geerly-cms-content'') ''thumbnails/clips/a.mp4.jpg'' = HeadOk
   \<and> video_handler_cached
       (storedWorld [(Bucket ''geerly-cms-content'', ''thumbnails/clips/a.mp4.jpg'')] sampleImage)
       (urlEvent ''GET'' trusted ''/geerly/clips/a.mp4'')
     = (\<lparr>statusCode = 302,
         resp_headers =
           [(''Location'', ''https://image.boilingkettle.co/geerly/thumbnails/clips/a.mp4.jpg''),
            (''Cache-Control'', ''public, max-age=31536000'')],
         resp_body = NoBody, isBase64Encoded = False\<rparr>,
        [S3HeadObject (Bucket ''geerly-cms-content'') ''thumbnails/clips/a.mp4.jpg.jpg'',
         S3GetObject (Bucket ''geerly-cms-content'') ''clips/a.mp4'',
         FfmpegThumbnail,
         S3PutObject (Bucket ''geerly-cms-content'') ''thumbnails/clips/a.mp4.jpg'' sampleImage])"
  by (simp add: storedWorld_def video_defs urlEvent_def notFoundError_def CACHE_TTL_def Let_def)


end
